theory Spec2Isabelle
  imports Complex_Main "HOL-Library.Word" "HOL-Library.Sublist"
begin

section \<open>JavaScript strings and thrown values\<close>

text \<open>
  Error messages are modelled as \<open>string\<close> (Latin-1 characters). On them
  \<open>toLowerCase\<close> maps \<open>A\<close>..\<open>Z\<close> and the Latin-1 capitals (192 to 222 without the
  multiplication sign 215) to their small letters, 32 places up, and leaves every other
  character alone; \<open>includesStr\<close> is JavaScript's \<open>String.prototype.includes\<close>.
\<close>

definition lowerChar :: "char \<Rightarrow> char" where
  "lowerChar c =
     (let n = (of_char c :: nat) in
      if (65 \<le> n \<and> n \<le> 90) \<or> (192 \<le> n \<and> n \<le> 222 \<and> n \<noteq> 215) then char_of (n + 32) else c)"

definition toLowerCase :: "string \<Rightarrow> string" where
  "toLowerCase s = map lowerChar s"

fun startsWith :: "'a list \<Rightarrow> 'a list \<Rightarrow> bool" where
  "startsWith s [] = True"
| "startsWith [] (n # ns) = False"
| "startsWith (c # cs) (n # ns) = (c = n \<and> startsWith cs ns)"

fun includesStr :: "'a list \<Rightarrow> 'a list \<Rightarrow> bool" where
  "includesStr [] n = (n = [])"
| "includesStr (c # cs) n = (startsWith (c # cs) n \<or> includesStr cs n)"

text \<open>
  A value thrown by the external call. \<open>ErrObj\<close> is an object with the optional fields
  the classifiers read: \<open>status\<close>, \<open>response.status\<close> (a number, or \<open>None\<close> when absent),
  \<open>message\<close> and \<open>error.message\<close> (the empty string when absent: both are only read
  through \<open>||\<close>, which treats \<open>undefined\<close> and \<open>""\<close> alike). \<open>ErrStr\<close> is a thrown
  string primitive.
\<close>

datatype thrown =
  ErrObj (status: "int option") (responseStatus: "int option")
         (message: string) (errorMessage: string)
| ErrStr string

text \<open>\<open>new Error(msg)\<close>: an object with a message and no status.\<close>

definition newError :: "string \<Rightarrow> thrown" where
  "newError msg = ErrObj None None msg []"

text \<open>\<open>a || b\<close> on strings.\<close>

definition orElse :: "'a list \<Rightarrow> 'a list \<Rightarrow> 'a list" where
  "orElse a b = (if a = [] then b else a)"

section \<open>geminiService.ts: error helpers\<close>

text \<open>\<open>normalizeErr\<close>: \<open>status = err?.status ?? err?.response?.status\<close> and the message
  chain \<open>err?.message || err?.error?.message || (typeof err === "string" ? err : "") ||
  "Unknown Gemini error"\<close>.\<close>

fun normalizeErr :: "thrown \<Rightarrow> int option \<times> string" where
  "normalizeErr (ErrObj st rst msg emsg) =
     ((case st of Some v \<Rightarrow> Some v | None \<Rightarrow> rst),
      orElse msg (orElse emsg (orElse [] ''Unknown Gemini error'')))"
| "normalizeErr (ErrStr s) = (None, orElse [] (orElse [] (orElse s ''Unknown Gemini error'')))"

definition isRetryable :: "thrown \<Rightarrow> bool" where
  "isRetryable err =
     (let (status, message) = normalizeErr err;
          msg = toLowerCase (orElse message [])
      in status = Some 429 \<or>
         status = Some 503 \<or>
         includesStr msg ''429'' \<or>
         includesStr msg ''503'' \<or>
         includesStr msg ''rate'' \<or>
         includesStr msg ''quota'' \<or>
         includesStr msg ''resource exhausted'' \<or>
         includesStr msg ''overload'' \<or>
         includesStr msg ''unavailable'' \<or>
         includesStr msg ''temporarily'')"

section \<open>BackblastGeneratorView.tsx: the transient test of generateWithRetry\<close>

text \<open>The \<open>catch\<close> block of \<open>generateWithRetry\<close> reads \<open>e?.message\<close>, \<open>e?.status\<close> and
  \<open>e?.response?.status\<close>; a thrown string has none of them.\<close>

fun viewMessage :: "thrown \<Rightarrow> string" where
  "viewMessage (ErrObj st rst msg emsg) = msg"
| "viewMessage (ErrStr s) = []"

fun viewStatus :: "thrown \<Rightarrow> int option" where
  "viewStatus (ErrObj st rst msg emsg) = st"
| "viewStatus (ErrStr s) = None"

fun viewResponseStatus :: "thrown \<Rightarrow> int option" where
  "viewResponseStatus (ErrObj st rst msg emsg) = rst"
| "viewResponseStatus (ErrStr s) = None"

definition transient :: "thrown \<Rightarrow> bool" where
  "transient e =
     (let msg = toLowerCase (orElse (viewMessage e) [])
      in includesStr msg ''overload'' \<or>
         includesStr msg ''quota'' \<or>
         includesStr msg ''429'' \<or>
         includesStr msg ''503'' \<or>
         viewStatus e = Some 429 \<or>
         viewStatus e = Some 503 \<or>
         viewResponseStatus e = Some 429 \<or>
         viewResponseStatus e = Some 503)"

section \<open>Post texts\<close>

text \<open>
  Generated texts contain emoji, so a text is a list of Unicode code points. \<open>js\<close>
  embeds an ASCII literal. \<open>trim\<close> is \<open>String.prototype.trim\<close>: it removes the
  ECMAScript white space and line terminators at both ends.
\<close>

type_synonym utext = "nat list"

definition js :: "string \<Rightarrow> utext" where
  "js s = map of_char s"

definition isSpace :: "nat \<Rightarrow> bool" where
  "isSpace c = (c \<in> {9, 10, 11, 12, 13, 32, 160, 5760, 8232, 8233, 8239, 8287, 12288, 65279}
               \<or> (8192 \<le> c \<and> c \<le> 8202))"

definition trim :: "utext \<Rightarrow> utext" where
  "trim t = rev (dropWhile isSpace (rev (dropWhile isSpace t)))"

section \<open>String.prototype.toLowerCase on texts\<close>

text \<open>
  \<open>toLowerCase\<close> converts the code points of a string by the Unicode default case
  conversion, which is a table of the JavaScript engine and not of the repository. The
  tables here are those of Unicode 14.0. An entry \<open>(lo, hi, stride, target)\<close> of
  \<open>lowerTable\<close> maps the code points \<open>lo\<close>, \<open>lo + stride\<close>, ... up to \<open>hi\<close> to
  \<open>target\<close>, \<open>target + stride\<close>, ...; every code point outside the table is its own
  lower case, except the capital I with dot above (304), which becomes the two code
  points 105 and 775.
\<close>

definition lowerTable :: "(nat \<times> nat \<times> nat \<times> nat) list" where
  "lowerTable =
     [(65, 90, 1, 97), (192, 214, 1, 224), (216, 222, 1, 248), (256, 302, 2, 257),
      (306, 310, 2, 307), (313, 327, 2, 314), (330, 374, 2, 331), (376, 376, 1, 255),
      (377, 381, 2, 378), (385, 385, 1, 595), (386, 388, 2, 387), (390, 390, 1, 596),
      (391, 391, 1, 392), (393, 394, 1, 598), (395, 395, 1, 396), (398, 398, 1, 477),
      (399, 399, 1, 601), (400, 400, 1, 603), (401, 401, 1, 402), (403, 403, 1, 608),
      (404, 404, 1, 611), (406, 406, 1, 617), (407, 407, 1, 616), (408, 408, 1, 409),
      (412, 412, 1, 623), (413, 413, 1, 626), (415, 415, 1, 629), (416, 420, 2, 417),
      (422, 422, 1, 640), (423, 423, 1, 424), (425, 425, 1, 643), (428, 428, 1, 429),
      (430, 430, 1, 648), (431, 431, 1, 432), (433, 434, 1, 650), (435, 437, 2, 436),
      (439, 439, 1, 658), (440, 440, 1, 441), (444, 444, 1, 445), (452, 452, 1, 454),
      (453, 453, 1, 454), (455, 455, 1, 457), (456, 456, 1, 457), (458, 458, 1, 460),
      (459, 475, 2, 460), (478, 494, 2, 479), (497, 497, 1, 499), (498, 500, 2, 499),
      (502, 502, 1, 405), (503, 503, 1, 447), (504, 542, 2, 505), (544, 544, 1, 414),
      (546, 562, 2, 547), (570, 570, 1, 11365), (571, 571, 1, 572), (573, 573, 1, 410),
      (574, 574, 1, 11366), (577, 577, 1, 578), (579, 579, 1, 384), (580, 580, 1, 649),
      (581, 581, 1, 652), (582, 590, 2, 583), (880, 882, 2, 881), (886, 886, 1, 887),
      (895, 895, 1, 1011), (902, 902, 1, 940), (904, 906, 1, 941), (908, 908, 1, 972),
      (910, 911, 1, 973), (913, 929, 1, 945), (931, 939, 1, 963), (975, 975, 1, 983),
      (984, 1006, 2, 985), (1012, 1012, 1, 952), (1015, 1015, 1, 1016), (1017, 1017, 1, 1010),
      (1018, 1018, 1, 1019), (1021, 1023, 1, 891), (1024, 1039, 1, 1104), (1040, 1071, 1, 1072),
      (1120, 1152, 2, 1121), (1162, 1214, 2, 1163), (1216, 1216, 1, 1231), (1217, 1229, 2, 1218),
      (1232, 1326, 2, 1233), (1329, 1366, 1, 1377), (4256, 4293, 1, 11520),
      (4295, 4295, 1, 11559), (4301, 4301, 1, 11565), (5024, 5103, 1, 43888),
      (5104, 5109, 1, 5112), (7312, 7354, 1, 4304), (7357, 7359, 1, 4349), (7680, 7828, 2, 7681),
      (7838, 7838, 1, 223), (7840, 7934, 2, 7841), (7944, 7951, 1, 7936), (7960, 7965, 1, 7952),
      (7976, 7983, 1, 7968), (7992, 7999, 1, 7984), (8008, 8013, 1, 8000), (8025, 8031, 2, 8017),
      (8040, 8047, 1, 8032), (8072, 8079, 1, 8064), (8088, 8095, 1, 8080), (8104, 8111, 1, 8096),
      (8120, 8121, 1, 8112), (8122, 8123, 1, 8048), (8124, 8124, 1, 8115), (8136, 8139, 1, 8050),
      (8140, 8140, 1, 8131), (8152, 8153, 1, 8144), (8154, 8155, 1, 8054), (8168, 8169, 1, 8160),
      (8170, 8171, 1, 8058), (8172, 8172, 1, 8165), (8184, 8185, 1, 8056), (8186, 8187, 1, 8060),
      (8188, 8188, 1, 8179), (8486, 8486, 1, 969), (8490, 8490, 1, 107), (8491, 8491, 1, 229),
      (8498, 8498, 1, 8526), (8544, 8559, 1, 8560), (8579, 8579, 1, 8580), (9398, 9423, 1, 9424),
      (11264, 11311, 1, 11312), (11360, 11360, 1, 11361), (11362, 11362, 1, 619),
      (11363, 11363, 1, 7549), (11364, 11364, 1, 637), (11367, 11371, 2, 11368),
      (11373, 11373, 1, 593), (11374, 11374, 1, 625), (11375, 11375, 1, 592),
      (11376, 11376, 1, 594), (11378, 11378, 1, 11379), (11381, 11381, 1, 11382),
      (11390, 11391, 1, 575), (11392, 11490, 2, 11393), (11499, 11501, 2, 11500),
      (11506, 11506, 1, 11507), (42560, 42604, 2, 42561), (42624, 42650, 2, 42625),
      (42786, 42798, 2, 42787), (42802, 42862, 2, 42803), (42873, 42875, 2, 42874),
      (42877, 42877, 1, 7545), (42878, 42886, 2, 42879), (42891, 42891, 1, 42892),
      (42893, 42893, 1, 613), (42896, 42898, 2, 42897), (42902, 42920, 2, 42903),
      (42922, 42922, 1, 614), (42923, 42923, 1, 604), (42924, 42924, 1, 609),
      (42925, 42925, 1, 620), (42926, 42926, 1, 618), (42928, 42928, 1, 670),
      (42929, 42929, 1, 647), (42930, 42930, 1, 669), (42931, 42931, 1, 43859),
      (42932, 42946, 2, 42933), (42948, 42948, 1, 42900), (42949, 42949, 1, 642),
      (42950, 42950, 1, 7566), (42951, 42953, 2, 42952), (42960, 42960, 1, 42961),
      (42966, 42968, 2, 42967), (42997, 42997, 1, 42998), (65313, 65338, 1, 65345),
      (66560, 66599, 1, 66600), (66736, 66771, 1, 66776), (66928, 66938, 1, 66967),
      (66940, 66954, 1, 66979), (66956, 66962, 1, 66995), (66964, 66965, 1, 67003),
      (68736, 68786, 1, 68800), (71840, 71871, 1, 71872), (93760, 93791, 1, 93792),
      (125184, 125217, 1, 125218)]"

fun lowerIn :: "(nat \<times> nat \<times> nat \<times> nat) list \<Rightarrow> nat \<Rightarrow> nat" where
  "lowerIn [] c = c"
| "lowerIn ((lo, hi, stride, target) # rs) c =
     (if lo \<le> c \<and> c \<le> hi \<and> (c - lo) mod stride = 0 then target + (c - lo)
      else lowerIn rs c)"

definition lowerCodePoint :: "nat \<Rightarrow> utext" where
  "lowerCodePoint c = (if c = 304 then [105, 775] else [lowerIn lowerTable c])"

text \<open>
  The one rule that looks at the context: a capital sigma (931) becomes the final small
  sigma (962) when the nearest code point before it that is not case-ignorable is cased
  and the nearest such code point behind it, if there is one, is not cased; otherwise it
  becomes 963. \<open>caseIgnorableRanges\<close> is the property Case_Ignorable and
  \<open>casedRanges\<close> the property Cased without the code points that are also
  case-ignorable, which the test never reaches.
\<close>

definition caseIgnorableRanges :: "(nat \<times> nat) list" where
  "caseIgnorableRanges =
     [(39, 39), (46, 46), (58, 58), (94, 94), (96, 96), (168, 168), (173, 173), (175, 175),
      (180, 180), (183, 184), (688, 879), (884, 885), (890, 890), (900, 901), (903, 903),
      (1155, 1161), (1369, 1369), (1375, 1375), (1425, 1469), (1471, 1471), (1473, 1474),
      (1476, 1477), (1479, 1479), (1524, 1524), (1536, 1541), (1552, 1562), (1564, 1564),
      (1600, 1600), (1611, 1631), (1648, 1648), (1750, 1757), (1759, 1768), (1770, 1773),
      (1807, 1807), (1809, 1809), (1840, 1866), (1958, 1968), (2027, 2037), (2042, 2042),
      (2045, 2045), (2070, 2093), (2137, 2139), (2184, 2184), (2192, 2193), (2200, 2207),
      (2249, 2306), (2362, 2362), (2364, 2364), (2369, 2376), (2381, 2381), (2385, 2391),
      (2402, 2403), (2417, 2417), (2433, 2433), (2492, 2492), (2497, 2500), (2509, 2509),
      (2530, 2531), (2558, 2558), (2561, 2562), (2620, 2620), (2625, 2626), (2631, 2632),
      (2635, 2637), (2641, 2641), (2672, 2673), (2677, 2677), (2689, 2690), (2748, 2748),
      (2753, 2757), (2759, 2760), (2765, 2765), (2786, 2787), (2810, 2815), (2817, 2817),
      (2876, 2876), (2879, 2879), (2881, 2884), (2893, 2893), (2901, 2902), (2914, 2915),
      (2946, 2946), (3008, 3008), (3021, 3021), (3072, 3072), (3076, 3076), (3132, 3132),
      (3134, 3136), (3142, 3144), (3146, 3149), (3157, 3158), (3170, 3171), (3201, 3201),
      (3260, 3260), (3263, 3263), (3270, 3270), (3276, 3277), (3298, 3299), (3328, 3329),
      (3387, 3388), (3393, 3396), (3405, 3405), (3426, 3427), (3457, 3457), (3530, 3530),
      (3538, 3540), (3542, 3542), (3633, 3633), (3636, 3642), (3654, 3662), (3761, 3761),
      (3764, 3772), (3782, 3782), (3784, 3789), (3864, 3865), (3893, 3893), (3895, 3895),
      (3897, 3897), (3953, 3966), (3968, 3972), (3974, 3975), (3981, 3991), (3993, 4028),
      (4038, 4038), (4141, 4144), (4146, 4151), (4153, 4154), (4157, 4158), (4184, 4185),
      (4190, 4192), (4209, 4212), (4226, 4226), (4229, 4230), (4237, 4237), (4253, 4253),
      (4348, 4348), (4957, 4959), (5906, 5908), (5938, 5939), (5970, 5971), (6002, 6003),
      (6068, 6069), (6071, 6077), (6086, 6086), (6089, 6099), (6103, 6103), (6109, 6109),
      (6155, 6159), (6211, 6211), (6277, 6278), (6313, 6313), (6432, 6434), (6439, 6440),
      (6450, 6450), (6457, 6459), (6679, 6680), (6683, 6683), (6742, 6742), (6744, 6750),
      (6752, 6752), (6754, 6754), (6757, 6764), (6771, 6780), (6783, 6783), (6823, 6823),
      (6832, 6862), (6912, 6915), (6964, 6964), (6966, 6970), (6972, 6972), (6978, 6978),
      (7019, 7027), (7040, 7041), (7074, 7077), (7080, 7081), (7083, 7085), (7142, 7142),
      (7144, 7145), (7149, 7149), (7151, 7153), (7212, 7219), (7222, 7223), (7288, 7293),
      (7376, 7378), (7380, 7392), (7394, 7400), (7405, 7405), (7412, 7412), (7416, 7417),
      (7468, 7530), (7544, 7544), (7579, 7679), (8125, 8125), (8127, 8129), (8141, 8143),
      (8157, 8159), (8173, 8175), (8189, 8190), (8203, 8207), (8216, 8217), (8228, 8228),
      (8231, 8231), (8234, 8238), (8288, 8292), (8294, 8303), (8305, 8305), (8319, 8319),
      (8336, 8348), (8400, 8432), (11388, 11389), (11503, 11505), (11631, 11631), (11647, 11647),
      (11744, 11775), (11823, 11823), (12293, 12293), (12330, 12333), (12337, 12341),
      (12347, 12347), (12441, 12446), (12540, 12542), (40981, 40981), (42232, 42237),
      (42508, 42508), (42607, 42610), (42612, 42621), (42623, 42623), (42652, 42655),
      (42736, 42737), (42752, 42785), (42864, 42864), (42888, 42890), (42994, 42996),
      (43000, 43001), (43010, 43010), (43014, 43014), (43019, 43019), (43045, 43046),
      (43052, 43052), (43204, 43205), (43232, 43249), (43263, 43263), (43302, 43309),
      (43335, 43345), (43392, 43394), (43443, 43443), (43446, 43449), (43452, 43453),
      (43471, 43471), (43493, 43494), (43561, 43566), (43569, 43570), (43573, 43574),
      (43587, 43587), (43596, 43596), (43632, 43632), (43644, 43644), (43696, 43696),
      (43698, 43700), (43703, 43704), (43710, 43711), (43713, 43713), (43741, 43741),
      (43756, 43757), (43763, 43764), (43766, 43766), (43867, 43871), (43881, 43883),
      (44005, 44005), (44008, 44008), (44013, 44013), (64286, 64286), (64434, 64450),
      (65024, 65039), (65043, 65043), (65056, 65071), (65106, 65106), (65109, 65109),
      (65279, 65279), (65287, 65287), (65294, 65294), (65306, 65306), (65342, 65342),
      (65344, 65344), (65392, 65392), (65438, 65439), (65507, 65507), (65529, 65531),
      (66045, 66045), (66272, 66272), (66422, 66426), (67456, 67461), (67463, 67504),
      (67506, 67514), (68097, 68099), (68101, 68102), (68108, 68111), (68152, 68154),
      (68159, 68159), (68325, 68326), (68900, 68903), (69291, 69292), (69446, 69456),
      (69506, 69509), (69633, 69633), (69688, 69702), (69744, 69744), (69747, 69748),
      (69759, 69761), (69811, 69814), (69817, 69818), (69821, 69821), (69826, 69826),
      (69837, 69837), (69888, 69890), (69927, 69931), (69933, 69940), (70003, 70003),
      (70016, 70017), (70070, 70078), (70089, 70092), (70095, 70095), (70191, 70193),
      (70196, 70196), (70198, 70199), (70206, 70206), (70367, 70367), (70371, 70378),
      (70400, 70401), (70459, 70460), (70464, 70464), (70502, 70508), (70512, 70516),
      (70712, 70719), (70722, 70724), (70726, 70726), (70750, 70750), (70835, 70840),
      (70842, 70842), (70847, 70848), (70850, 70851), (71090, 71093), (71100, 71101),
      (71103, 71104), (71132, 71133), (71219, 71226), (71229, 71229), (71231, 71232),
      (71339, 71339), (71341, 71341), (71344, 71349), (71351, 71351), (71453, 71455),
      (71458, 71461), (71463, 71467), (71727, 71735), (71737, 71738), (71995, 71996),
      (71998, 71998), (72003, 72003), (72148, 72151), (72154, 72155), (72160, 72160),
      (72193, 72202), (72243, 72248), (72251, 72254), (72263, 72263), (72273, 72278),
      (72281, 72283), (72330, 72342), (72344, 72345), (72752, 72758), (72760, 72765),
      (72767, 72767), (72850, 72871), (72874, 72880), (72882, 72883), (72885, 72886),
      (73009, 73014), (73018, 73018), (73020, 73021), (73023, 73029), (73031, 73031),
      (73104, 73105), (73109, 73109), (73111, 73111), (73459, 73460), (78896, 78904),
      (92912, 92916), (92976, 92982), (92992, 92995), (94031, 94031), (94095, 94111),
      (94176, 94177), (94179, 94180), (110576, 110579), (110581, 110587), (110589, 110590),
      (113821, 113822), (113824, 113827), (118528, 118573), (118576, 118598), (119143, 119145),
      (119155, 119170), (119173, 119179), (119210, 119213), (119362, 119364), (121344, 121398),
      (121403, 121452), (121461, 121461), (121476, 121476), (121499, 121503), (121505, 121519),
      (122880, 122886), (122888, 122904), (122907, 122913), (122915, 122916), (122918, 122922),
      (123184, 123197), (123566, 123566), (123628, 123631), (125136, 125142), (125252, 125259),
      (127995, 127999), (917505, 917505), (917536, 917631), (917760, 917999)]"

definition casedRanges :: "(nat \<times> nat) list" where
  "casedRanges =
     [(65, 90), (97, 122), (170, 170), (181, 181), (186, 186), (192, 214), (216, 246),
      (248, 442), (444, 447), (452, 659), (661, 687), (880, 883), (886, 887), (891, 893),
      (895, 895), (902, 902), (904, 906), (908, 908), (910, 929), (931, 1013), (1015, 1153),
      (1162, 1327), (1329, 1366), (1376, 1416), (4256, 4293), (4295, 4295), (4301, 4301),
      (4304, 4346), (4349, 4351), (5024, 5109), (5112, 5117), (7296, 7304), (7312, 7354),
      (7357, 7359), (7424, 7467), (7531, 7543), (7545, 7578), (7680, 7957), (7960, 7965),
      (7968, 8005), (8008, 8013), (8016, 8023), (8025, 8025), (8027, 8027), (8029, 8029),
      (8031, 8061), (8064, 8116), (8118, 8124), (8126, 8126), (8130, 8132), (8134, 8140),
      (8144, 8147), (8150, 8155), (8160, 8172), (8178, 8180), (8182, 8188), (8450, 8450),
      (8455, 8455), (8458, 8467), (8469, 8469), (8473, 8477), (8484, 8484), (8486, 8486),
      (8488, 8488), (8490, 8493), (8495, 8500), (8505, 8505), (8508, 8511), (8517, 8521),
      (8526, 8526), (8544, 8575), (8579, 8580), (9398, 9449), (11264, 11387), (11390, 11492),
      (11499, 11502), (11506, 11507), (11520, 11557), (11559, 11559), (11565, 11565),
      (42560, 42605), (42624, 42651), (42786, 42863), (42865, 42887), (42891, 42894),
      (42896, 42954), (42960, 42961), (42963, 42963), (42965, 42969), (42997, 42998),
      (43002, 43002), (43824, 43866), (43872, 43880), (43888, 43967), (64256, 64262),
      (64275, 64279), (65313, 65338), (65345, 65370), (66560, 66639), (66736, 66771),
      (66776, 66811), (66928, 66938), (66940, 66954), (66956, 66962), (66964, 66965),
      (66967, 66977), (66979, 66993), (66995, 67001), (67003, 67004), (68736, 68786),
      (68800, 68850), (71840, 71903), (93760, 93823), (119808, 119892), (119894, 119964),
      (119966, 119967), (119970, 119970), (119973, 119974), (119977, 119980), (119982, 119993),
      (119995, 119995), (119997, 120003), (120005, 120069), (120071, 120074), (120077, 120084),
      (120086, 120092), (120094, 120121), (120123, 120126), (120128, 120132), (120134, 120134),
      (120138, 120144), (120146, 120485), (120488, 120512), (120514, 120538), (120540, 120570),
      (120572, 120596), (120598, 120628), (120630, 120654), (120656, 120686), (120688, 120712),
      (120714, 120744), (120746, 120770), (120772, 120779), (122624, 122633), (122635, 122654),
      (125184, 125251), (127280, 127305), (127312, 127337), (127344, 127369)]"

fun inRanges :: "(nat \<times> nat) list \<Rightarrow> nat \<Rightarrow> bool" where
  "inRanges [] c = False"
| "inRanges ((lo, hi) # rs) c = ((lo \<le> c \<and> c \<le> hi) \<or> inRanges rs c)"

text \<open>\<open>front\<close> holds the code points in front of the sigma, the nearest first.\<close>

definition finalSigma :: "utext \<Rightarrow> utext \<Rightarrow> bool" where
  "finalSigma front back =
     (case dropWhile (inRanges caseIgnorableRanges) front of
        [] \<Rightarrow> False
      | c # cs \<Rightarrow>
          inRanges casedRanges c \<and>
          (case dropWhile (inRanges caseIgnorableRanges) back of
             [] \<Rightarrow> True
           | d # ds \<Rightarrow> \<not> inRanges casedRanges d))"

fun lowerFrom :: "utext \<Rightarrow> utext \<Rightarrow> utext" where
  "lowerFrom front [] = []"
| "lowerFrom front (c # cs) =
     (if c = 931 then [if finalSigma front cs then 962 else 963] else lowerCodePoint c)
       @ lowerFrom (c # front) cs"

definition toLowerCaseU :: "utext \<Rightarrow> utext" where
  "toLowerCaseU t = lowerFrom [] t"

section \<open>The external call, the clock and the timers\<close>

text \<open>
  The external generation call and the timers are the environment. The \<open>i\<close>-th call of
  \<open>ai.models.generateContent\<close> takes \<open>callDur E i\<close> milliseconds and either rejects with a
  thrown value or resolves with a response whose \<open>text\<close> may be missing. The \<open>k\<close>-th
  \<open>setTimeout\<close> fires \<open>sleepLate E k\<close> milliseconds late. Time advances only in
  external calls and timer waits; \<open>Date.now()\<close> reads \<open>now\<close>.

  The state also counts the external calls made and logs, for every timer wait that a
  retry loop starts, the clock value at which it was scheduled.
\<close>

type_synonym response = "utext option"

text \<open>
  The SDK client is module state of \<open>geminiService.ts\<close> (\<open>genAiModulePromise\<close> and
  \<open>genAiClient\<close>): nothing has been imported yet, or the client exists, or the dynamic
  \<open>import("@google/genai")\<close> was rejected and the rejected promise is kept. The import is
  part of the environment: it takes \<open>importDur E\<close> milliseconds and is rejected with
  \<open>importRes E\<close> unless that is \<open>None\<close>.
\<close>

datatype genAi = NotLoaded | Loaded | LoadFailed thrown

record env =
  callDur :: "nat \<Rightarrow> nat"
  callRes :: "nat \<Rightarrow> thrown + response"
  sleepLate :: "nat \<Rightarrow> nat"
  importDur :: nat
  importRes :: "thrown option"

record clock =
  now :: nat
  calls :: nat
  sleeps :: nat
  schedAt :: "nat list"
  client :: genAi

definition externalCall :: "env \<Rightarrow> clock \<Rightarrow> (thrown + response) \<times> clock" where
  "externalCall E s =
     (callRes E (calls s),
      s\<lparr>now := now s + callDur E (calls s), calls := Suc (calls s)\<rparr>)"

text \<open>\<open>await new Promise((res) => setTimeout(res, waitMs))\<close>: the delay is truncated to
  whole milliseconds.\<close>

definition sleep :: "env \<Rightarrow> rat \<Rightarrow> clock \<Rightarrow> clock" where
  "sleep E waitMs s =
     s\<lparr>now := now s + nat \<lfloor>waitMs\<rfloor> + sleepLate E (sleeps s),
       sleeps := Suc (sleeps s),
       schedAt := schedAt s @ [now s]\<rparr>"

text \<open>
  \<open>getGenAiClient\<close>: the first call awaits the dynamic import and then creates the client
  (the constructor is taken not to throw); later calls return the client at once, or
  are rejected at once with the error of the failed import.
\<close>

definition getGenAiClient :: "env \<Rightarrow> clock \<Rightarrow> (thrown + unit) \<times> clock" where
  "getGenAiClient E s =
     (case client s of
        Loaded \<Rightarrow> (Inr (), s)
      | LoadFailed e \<Rightarrow> (Inl e, s)
      | NotLoaded \<Rightarrow>
          (case importRes E of
             None \<Rightarrow> (Inr (), s\<lparr>now := now s + importDur E, client := Loaded\<rparr>)
           | Some e \<Rightarrow> (Inl e, s\<lparr>now := now s + importDur E, client := LoadFailed e\<rparr>)))"

section \<open>geminiService.ts: retryGeminiCall\<close>

text \<open>
  \<open>Math.pow(1.6, attempt)\<close> is computed in exact rational arithmetic. The loop variable
  \<open>attempt\<close> starts at 0; \<open>startedAt\<close> is read once before the loop.
\<close>

definition limitError :: thrown where
  "limitError = newError ''Gemini retry limit reached (overload/rate-limit).''"

definition serviceBackoff :: "nat \<Rightarrow> rat" where
  "serviceBackoff attempt = min (2000 * (8 / 5) ^ attempt) 20000"

definition serviceWaitMs :: "nat \<Rightarrow> nat \<Rightarrow> nat \<Rightarrow> rat" where
  "serviceWaitMs maxTotalMs attempt elapsed =
     (let backoff = serviceBackoff attempt;
          remaining = (of_nat maxTotalMs - of_nat elapsed :: rat)
      in min backoff remaining)"

function retryLoop ::
  "env \<Rightarrow> nat \<Rightarrow> nat \<Rightarrow> nat \<Rightarrow> nat \<Rightarrow> clock \<Rightarrow> (thrown + response) \<times> clock" where
  "retryLoop E maxRetries maxTotalMs startedAt attempt s =
     (if attempt < maxRetries then
        (case externalCall E s of
           (Inr v, s1) \<Rightarrow> (Inr v, s1)
         | (Inl err, s1) \<Rightarrow>
             if \<not> isRetryable err then (Inl err, s1)
             else
               let elapsed = now s1 - startedAt in
               if elapsed \<ge> maxTotalMs then (Inl limitError, s1)
               else retryLoop E maxRetries maxTotalMs startedAt (Suc attempt)
                      (sleep E (serviceWaitMs maxTotalMs attempt elapsed) s1))
      else (Inl limitError, s))"
  by pat_completeness auto
termination
  by (relation "measure (\<lambda>(E, maxRetries, maxTotalMs, startedAt, attempt, s). maxRetries - attempt)")
     auto

declare retryLoop.simps [simp del]

definition retryGeminiCall :: "env \<Rightarrow> clock \<Rightarrow> (thrown + response) \<times> clock" where
  "retryGeminiCall E s = retryLoop E 10 60000 (now s) 0 s"

section \<open>geminiService.ts: generateBackblast and generatePreblast\<close>

text \<open>
  Both functions check the API key and the AO id, await \<open>getGenAiClient()\<close>, build a
  prompt, call the model through \<open>retryGeminiCall\<close>, which reads its \<open>startedAt\<close> only
  then, and reject an empty or white-space-only answer. The prompt does not
  appear: the environment answers by call number whatever the prompt is. The key and the
  AO id are parameters (\<open>True\<close> when present).
\<close>

definition generateBackblast ::
  "env \<Rightarrow> bool \<Rightarrow> bool \<Rightarrow> clock \<Rightarrow> (thrown + utext) \<times> clock" where
  "generateBackblast E apiKey aoId s =
     (if \<not> apiKey then (Inl (newError ''Missing VITE_GEMINI_API_KEY.''), s)
      else if \<not> aoId then (Inl (newError ''Missing aoId for generateBackblast().''), s)
      else
        (case getGenAiClient E s of
           (Inl e, s0) \<Rightarrow> (Inl e, s0)
         | (Inr ai, s0) \<Rightarrow>
             (case retryGeminiCall E s0 of
                (Inl e, s1) \<Rightarrow> (Inl e, s1)
              | (Inr response, s1) \<Rightarrow>
                  let text = trim (case response of Some t \<Rightarrow> t | None \<Rightarrow> []) in
                  if text = [] then (Inl (newError ''Gemini returned empty text for backblast.''), s1)
                  else (Inr text, s1))))"

definition generatePreblast ::
  "env \<Rightarrow> bool \<Rightarrow> bool \<Rightarrow> clock \<Rightarrow> (thrown + utext) \<times> clock" where
  "generatePreblast E apiKey aoId s =
     (if \<not> apiKey then (Inl (newError ''Missing VITE_GEMINI_API_KEY.''), s)
      else if \<not> aoId then (Inl (newError ''Missing aoId for generatePreblast().''), s)
      else
        (case getGenAiClient E s of
           (Inl e, s0) \<Rightarrow> (Inl e, s0)
         | (Inr ai, s0) \<Rightarrow>
             (case retryGeminiCall E s0 of
                (Inl e, s1) \<Rightarrow> (Inl e, s1)
              | (Inr response, s1) \<Rightarrow>
                  let text = trim (case response of Some t \<Rightarrow> t | None \<Rightarrow> []) in
                  if text = [] then (Inl (newError ''Gemini returned empty text for preblast.''), s1)
                  else (Inr text, s1))))"

section \<open>BackblastGeneratorView.tsx: generateWithRetry\<close>

text \<open>The view's loop counts \<open>attempt\<close> from 1 and doubles a base delay of one second.
  The status callback \<open>onStatus\<close> only displays progress and is left out.\<close>

definition viewDelay :: "nat \<Rightarrow> rat" where
  "viewDelay attempt = min (1000 * 2 ^ attempt) 20000"

definition viewWaitMs :: "nat \<Rightarrow> nat \<Rightarrow> nat \<Rightarrow> rat" where
  "viewWaitMs maxTotalMs attempt elapsed =
     (let delay = viewDelay attempt;
          remaining = (of_nat maxTotalMs - of_nat elapsed :: rat)
      in min delay remaining)"

function viewLoop ::
  "env \<Rightarrow> bool \<Rightarrow> bool \<Rightarrow> nat \<Rightarrow> nat \<Rightarrow> nat \<Rightarrow> nat \<Rightarrow> clock \<Rightarrow> (thrown + utext) \<times> clock" where
  "viewLoop E apiKey aoId maxRetries maxTotalMs startedAt attempt s =
     (if attempt \<le> maxRetries then
        (case generateBackblast E apiKey aoId s of
           (Inr result, s1) \<Rightarrow> (Inr result, s1)
         | (Inl e, s1) \<Rightarrow>
             let elapsed = now s1 - startedAt in
             if \<not> transient e \<or> attempt = maxRetries \<or> elapsed \<ge> maxTotalMs then (Inl e, s1)
             else viewLoop E apiKey aoId maxRetries maxTotalMs startedAt (Suc attempt)
                    (sleep E (viewWaitMs maxTotalMs attempt elapsed) s1))
      else (Inl (newError ''Unexpected retry failure''), s))"
  by pat_completeness auto
termination
  by (relation "measure (\<lambda>(E, apiKey, aoId, maxRetries, maxTotalMs, startedAt, attempt, s).
                  Suc maxRetries - attempt)")
     auto

declare viewLoop.simps [simp del]

definition generateWithRetry ::
  "env \<Rightarrow> bool \<Rightarrow> bool \<Rightarrow> clock \<Rightarrow> (thrown + utext) \<times> clock" where
  "generateWithRetry E apiKey aoId s = viewLoop E apiKey aoId 10 60000 (now s) 1 s"

section \<open>Rosters\<close>

text \<open>
  \<open>PaxAttendance\<close> (types.ts) and the two Jurassic Park row types of the backblast view.
  \<open>JpPaxMpc\<close> has no \<open>bd\<close> flag and \<open>JpPaxRunRuck\<close> adds \<open>lead\<close>, so the three
  types form a chain of record extensions. The field \<open>id\<close> is called \<open>pid\<close>.
\<close>

record jpPaxMpc =
  pid :: utext
  name :: utext
  dd :: bool
  td :: bool
  bigfoot :: bool
  starsky :: bool

record paxAttendance = jpPaxMpc +
  bd :: bool

record jpPaxRunRuck = paxAttendance +
  lead :: bool

text \<open>\<open>Array.prototype.join\<close>.\<close>

fun joinWith :: "utext \<Rightarrow> utext list \<Rightarrow> utext" where
  "joinWith sep [] = []"
| "joinWith sep [x] = x"
| "joinWith sep (x # y # ys) = x @ sep @ joinWith sep (y # ys)"


text \<open>\<open>stripAt\<close>: \<open>String(name || "").trim().replace(/^@+/, "")\<close>; 64 is \<open>@\<close>.\<close>

definition stripAt :: "utext \<Rightarrow> utext" where
  "stripAt nm = dropWhile (\<lambda>c. c = 64) (trim nm)"

text \<open>constants.ts, \<open>getBandNameForF3Name\<close>: the directory \<open>bandNameByF3Name\<close> is module
  state, here the parameter \<open>dir\<close>.\<close>

definition getBandNameForF3Name :: "(utext \<rightharpoonup> utext) \<Rightarrow> utext \<Rightarrow> utext" where
  "getBandNameForF3Name dir nm =
     (let clean = trim nm in
      if clean = [] then []
      else orElse (case dir clean of Some m \<Rightarrow> m | None \<Rightarrow> []) clean)"

definition addAt :: "(utext \<rightharpoonup> utext) \<Rightarrow> utext \<Rightarrow> utext" where
  "addAt dir nm =
     (let n = stripAt nm;
          band = orElse (getBandNameForF3Name dir n) n
      in if band \<noteq> [] then 64 # band else [])"

definition formatPaxNameWithExtras :: "(utext \<rightharpoonup> utext) \<Rightarrow> 'a paxAttendance_scheme \<Rightarrow> utext" where
  "formatPaxNameWithExtras dir p =
     (let tags = (if bigfoot p then [js ''Bigfoot''] else []);
          base = addAt dir (name p)
      in if tags \<noteq> [] then base @ js '' ['' @ joinWith (js '', '') tags @ js '']'' else base)"

subsection \<open>BackblastGeneratorView.tsx: formatPaxSectionStandard\<close>

text \<open>The four filters of \<open>formatPaxSectionStandard\<close>; \<open>generateBackblast\<close> in the service
  applies the same four filters to \<open>paxAttendance\<close>.\<close>

definition starskySel :: "paxAttendance list \<Rightarrow> paxAttendance list" where
  "starskySel pax = filter (\<lambda>p. starsky p) pax"

definition tdSel :: "paxAttendance list \<Rightarrow> paxAttendance list" where
  "tdSel pax = filter (\<lambda>p. td p \<and> \<not> starsky p) pax"

definition ddSel :: "paxAttendance list \<Rightarrow> paxAttendance list" where
  "ddSel pax = filter (\<lambda>p. dd p \<and> \<not> td p \<and> \<not> starsky p) pax"

definition bdSel :: "paxAttendance list \<Rightarrow> paxAttendance list" where
  "bdSel pax = filter (\<lambda>p. bd p \<and> \<not> dd p \<and> \<not> td p \<and> \<not> starsky p) pax"

definition formatPaxSectionStandardLines :: "(utext \<rightharpoonup> utext) \<Rightarrow> paxAttendance list \<Rightarrow> utext list" where
  "formatPaxSectionStandardLines dir pax =
     (let starskyL = map (\<lambda>p. addAt dir (name p)) (starskySel pax);
          tdL = map (formatPaxNameWithExtras dir) (tdSel pax);
          ddL = map (formatPaxNameWithExtras dir) (ddSel pax);
          bdL = map (formatPaxNameWithExtras dir) (bdSel pax);
          l0 = [];
          l1 = (if tdL \<noteq> [] then l0 @ map (\<lambda>n. n @ js '' [TD]'') tdL else l0);
          l2 = (if ddL \<noteq> [] then l1 @ map (\<lambda>n. n @ js '' [DD]'') ddL else l1);
          l3 = (if bdL \<noteq> [] then l2 @ bdL else l2);
          l4 = (if starskyL \<noteq> [] then l3 @ map (\<lambda>n. n @ js '' [Starsky]'') starskyL else l3)
      in l4)"

definition formatPaxSectionStandard :: "(utext \<rightharpoonup> utext) \<Rightarrow> paxAttendance list \<Rightarrow> utext" where
  "formatPaxSectionStandard dir pax = joinWith [10] (formatPaxSectionStandardLines dir pax)"

subsection \<open>geminiService.ts: the roster block of generateBackblast\<close>

definition withAt :: "utext \<Rightarrow> utext" where
  "withAt nm = (let n = stripAt nm in if n \<noteq> [] then 64 # n else [])"

definition serviceFormatPaxNameWithExtras :: "paxAttendance \<Rightarrow> utext" where
  "serviceFormatPaxNameWithExtras p =
     (let tags = (if bigfoot p then [js ''Bigfoot''] else []);
          base = withAt (name p)
      in if tags \<noteq> [] then base @ js '' ('' @ joinWith (js '', '') tags @ js '')'' else base)"

definition servicePaxLines :: "paxAttendance list \<Rightarrow> utext list" where
  "servicePaxLines pax =
     (let starskyL = map (\<lambda>p. withAt (name p)) (starskySel pax);
          tdL = map serviceFormatPaxNameWithExtras (tdSel pax);
          ddL = map serviceFormatPaxNameWithExtras (ddSel pax);
          bdL = map serviceFormatPaxNameWithExtras (bdSel pax);
          l0 = [];
          l1 = (if tdL \<noteq> [] then l0 @ map (\<lambda>n. n @ js '' [TD]'') tdL else l0);
          l2 = (if ddL \<noteq> [] then l1 @ map (\<lambda>n. n @ js '' [DD]'') ddL else l1);
          l3 = (if bdL \<noteq> [] then l2 @ bdL else l2);
          l4 = (if starskyL \<noteq> [] then l3 @ map (\<lambda>n. n @ js '' (Starsky)'') starskyL else l3)
      in l4)"

text \<open>\<open>totalPax\<close> of \<open>generateBackblast\<close> (service) and of \<open>formatBackblastNoAI_Standard\<close>
  (view): both are \<open>pax.filter((p) => !p.starsky).length\<close>.\<close>

definition serviceTotalPax :: "paxAttendance list \<Rightarrow> nat" where
  "serviceTotalPax paxAttendance = length (filter (\<lambda>p. \<not> starsky p) paxAttendance)"

definition standardTotalPax :: "paxAttendance list \<Rightarrow> nat" where
  "standardTotalPax pax = length (filter (\<lambda>p. \<not> starsky p) pax)"

subsection \<open>BackblastGeneratorView.tsx: the roster handed to the generators, and the counters\<close>

text \<open>\<open>validStandardPax\<close> in \<open>handleGenerateAI\<close>: names stripped, blank rows dropped.\<close>

definition validStandardPax :: "paxAttendance list \<Rightarrow> paxAttendance list" where
  "validStandardPax paxAttendance =
     filter (\<lambda>p. trim (name p) \<noteq> []) (map (\<lambda>p. p\<lparr>name := stripAt (name p)\<rparr>) paxAttendance)"

definition countStandardTotal :: "paxAttendance list \<Rightarrow> nat" where
  "countStandardTotal paxAttendance =
     length (filter (\<lambda>p. stripAt (name p) \<noteq> [] \<and> \<not> starsky p) paxAttendance)"

text \<open>\<open>countJpTotal\<close>: \<open>names\<close> is a JavaScript \<open>Set\<close>, here a list without repetitions
  in insertion order; \<open>add\<close> inserts the cleaned name unless it is empty.\<close>

definition addName :: "utext list \<Rightarrow> utext \<Rightarrow> utext list" where
  "addName names n =
     (let cleaned = toLowerCaseU (trim (stripAt n)) in
      if cleaned \<noteq> [] then (if cleaned \<in> set names then names else names @ [cleaned])
      else names)"

definition countJpTotal :: "jpPaxRunRuck list \<Rightarrow> jpPaxRunRuck list \<Rightarrow> jpPaxMpc list \<Rightarrow> nat" where
  "countJpTotal jpRunPax jpRuckPax jpMpcPax =
     (let names0 = [];
          names1 = foldl addName names0 (map name (filter (\<lambda>p. \<not> starsky p) jpRunPax));
          names2 = foldl addName names1 (map name (filter (\<lambda>p. \<not> starsky p) jpRuckPax));
          names3 = foldl addName names2 (map name (filter (\<lambda>p. \<not> starsky p) jpMpcPax))
      in length names3)"

section \<open>JavaScript regular expressions\<close>

text \<open>
  The normalisation code is a sequence of \<open>String.prototype.replace\<close> calls with global
  regular expressions. \<open>re\<close> is the syntax the source uses: literals, character classes,
  the dot, sequence, alternative, the greedy quantifiers \<open>*\<close> and \<open>?\<close> (\<open>+\<close> is
  \<open>plus1\<close>), capturing groups and the assertions \<open>^\<close> and \<open>$\<close> (with the \<open>m\<close> flag:
  \<open>Bol\<close>, \<open>Eol\<close>; without it \<open>Start\<close>) and \<open>\b\<close>.

  \<open>ms ci r (p, t, cs)\<close> lists, in the order in which a backtracking matcher finds them,
  the states that \<open>r\<close> can reach from the position with previous character \<open>p\<close>,
  remaining text \<open>t\<close> and captures \<open>cs\<close>; the first one is the match JavaScript
  takes. \<open>ci\<close> is the \<open>i\<close> flag. A \<open>*\<close> iteration that consumes nothing is dropped, as
  the ECMAScript RepeatMatcher does.

  Texts are lists of code points, the source's strings are UTF-16; on texts without lone
  surrogates the expressions used here match alike. Case is folded for the ASCII
  letters, the only cased characters in the patterns.
\<close>

datatype citem = CChar nat | CRange nat nat | CSpace | CNonSpace | CSo

datatype re =
  Lit nat | Cls bool "citem list" | Dot
| Seq re re | Alt re re | Star re | Opt re
| Grp nat re | Bol | Eol | Start | WordB | Eps

type_synonym mstate = "nat option \<times> utext \<times> (nat \<times> utext) list"

definition canon :: "nat \<Rightarrow> nat" where
  "canon c = (if 97 \<le> c \<and> c \<le> 122 then c - 32 else c)"

definition isLineTerminator :: "nat \<Rightarrow> bool" where
  "isLineTerminator c = (c = 10 \<or> c = 13 \<or> c = 8232 \<or> c = 8233)"

definition isWordChar :: "nat \<Rightarrow> bool" where
  "isWordChar c =
     ((48 \<le> c \<and> c \<le> 57) \<or> (65 \<le> c \<and> c \<le> 90) \<or> c = 95 \<or> (97 \<le> c \<and> c \<le> 122))"

text \<open>
  The Unicode property \<open>\p{So}\<close> (general category Symbol, other) is a table of the
  JavaScript engine, not of the repository: \<open>symbolOtherRanges\<close> lists the ranges of
  code points of that category in Unicode 14.0.
\<close>

definition symbolOtherRanges :: "(nat \<times> nat) list" where
  "symbolOtherRanges =
     [(166, 166), (169, 169), (174, 174), (176, 176), (1154, 1154), (1421, 1422), (1550, 1551),
      (1758, 1758), (1769, 1769), (1789, 1790), (2038, 2038), (2554, 2554), (2928, 2928),
      (3059, 3064), (3066, 3066), (3199, 3199), (3407, 3407), (3449, 3449), (3841, 3843),
      (3859, 3859), (3861, 3863), (3866, 3871), (3892, 3892), (3894, 3894), (3896, 3896),
      (4030, 4037), (4039, 4044), (4046, 4047), (4053, 4056), (4254, 4255), (5008, 5017),
      (5741, 5741), (6464, 6464), (6622, 6655), (7009, 7018), (7028, 7036), (8448, 8449),
      (8451, 8454), (8456, 8457), (8468, 8468), (8470, 8471), (8478, 8483), (8485, 8485),
      (8487, 8487), (8489, 8489), (8494, 8494), (8506, 8507), (8522, 8522), (8524, 8525),
      (8527, 8527), (8586, 8587), (8597, 8601), (8604, 8607), (8609, 8610), (8612, 8613),
      (8615, 8621), (8623, 8653), (8656, 8657), (8659, 8659), (8661, 8691), (8960, 8967),
      (8972, 8991), (8994, 9000), (9003, 9083), (9085, 9114), (9140, 9179), (9186, 9254),
      (9280, 9290), (9372, 9449), (9472, 9654), (9656, 9664), (9666, 9719), (9728, 9838),
      (9840, 10087), (10132, 10175), (10240, 10495), (11008, 11055), (11077, 11078),
      (11085, 11123), (11126, 11157), (11159, 11263), (11493, 11498), (11856, 11857),
      (11904, 11929), (11931, 12019), (12032, 12245), (12272, 12283), (12292, 12292),
      (12306, 12307), (12320, 12320), (12342, 12343), (12350, 12351), (12688, 12689),
      (12694, 12703), (12736, 12771), (12800, 12830), (12842, 12871), (12880, 12880),
      (12896, 12927), (12938, 12976), (12992, 13311), (19904, 19967), (42128, 42182),
      (43048, 43051), (43062, 43063), (43065, 43065), (43639, 43641), (64832, 64847),
      (64975, 64975), (65021, 65023), (65508, 65508), (65512, 65512), (65517, 65518),
      (65532, 65533), (65847, 65855), (65913, 65929), (65932, 65934), (65936, 65948),
      (65952, 65952), (66000, 66044), (67703, 67704), (68296, 68296), (71487, 71487),
      (73685, 73692), (73697, 73713), (92988, 92991), (92997, 92997), (113820, 113820),
      (118608, 118723), (118784, 119029), (119040, 119078), (119081, 119140), (119146, 119148),
      (119171, 119172), (119180, 119209), (119214, 119274), (119296, 119361), (119365, 119365),
      (119552, 119638), (120832, 121343), (121399, 121402), (121453, 121460), (121462, 121475),
      (121477, 121478), (123215, 123215), (126124, 126124), (126254, 126254), (126976, 127019),
      (127024, 127123), (127136, 127150), (127153, 127167), (127169, 127183), (127185, 127221),
      (127245, 127405), (127462, 127490), (127504, 127547), (127552, 127560), (127568, 127569),
      (127584, 127589), (127744, 127994), (128000, 128727), (128733, 128748), (128752, 128764),
      (128768, 128883), (128896, 128984), (128992, 129003), (129008, 129008), (129024, 129035),
      (129040, 129095), (129104, 129113), (129120, 129159), (129168, 129197), (129200, 129201),
      (129280, 129619), (129632, 129645), (129648, 129652), (129656, 129660), (129664, 129670),
      (129680, 129708), (129712, 129722), (129728, 129733), (129744, 129753), (129760, 129767),
      (129776, 129782), (129792, 129938), (129940, 129994)]"

definition symbolOther :: "nat \<Rightarrow> bool" where
  "symbolOther c = inRanges symbolOtherRanges c"

fun itemMatches :: "bool \<Rightarrow> citem \<Rightarrow> nat \<Rightarrow> bool" where
  "itemMatches ci (CChar a) c = (if ci then canon a = canon c else a = c)"
| "itemMatches ci (CRange lo hi) c =
     ((lo \<le> c \<and> c \<le> hi) \<or>
      (ci \<and> ((lo \<le> canon c \<and> canon c \<le> hi) \<or>
             (65 \<le> c \<and> c \<le> 90 \<and> lo \<le> c + 32 \<and> c + 32 \<le> hi))))"
| "itemMatches ci CSpace c = isSpace c"
| "itemMatches ci CNonSpace c = (\<not> isSpace c)"
| "itemMatches ci CSo c = symbolOther c"

definition charStep :: "(nat \<Rightarrow> bool) \<Rightarrow> mstate \<Rightarrow> mstate list" where
  "charStep P s =
     (case s of (p, r, cs) \<Rightarrow>
        (case r of [] \<Rightarrow> [] | c # r' \<Rightarrow> if P c then [(Some c, r', cs)] else []))"

function ms :: "bool \<Rightarrow> re \<Rightarrow> mstate \<Rightarrow> mstate list" where
  "ms ci (Lit a) s = charStep (\<lambda>c. if ci then canon a = canon c else a = c) s"
| "ms ci (Cls neg items) s = charStep (\<lambda>c. list_ex (\<lambda>i. itemMatches ci i c) items \<noteq> neg) s"
| "ms ci Dot s = charStep (\<lambda>c. \<not> isLineTerminator c) s"
| "ms ci (Seq a b) s = concat (map (ms ci b) (ms ci a s))"
| "ms ci (Alt a b) s = ms ci a s @ ms ci b s"
| "ms ci (Star a) s =
     concat (map (\<lambda>s'. if length (fst (snd s')) < length (fst (snd s)) then ms ci (Star a) s' else [])
                 (ms ci a s)) @ [s]"
| "ms ci (Opt a) s = ms ci a s @ [s]"
| "ms ci (Grp i a) s =
     map (\<lambda>s'. (fst s', fst (snd s'),
                 (i, take (length (fst (snd s)) - length (fst (snd s'))) (fst (snd s))) # snd (snd s')))
         (ms ci a s)"
| "ms ci Bol s = (case fst s of None \<Rightarrow> [s] | Some p \<Rightarrow> if isLineTerminator p then [s] else [])"
| "ms ci Eol s = (case fst (snd s) of [] \<Rightarrow> [s] | c # r \<Rightarrow> if isLineTerminator c then [s] else [])"
| "ms ci Start s = (case fst s of None \<Rightarrow> [s] | Some p \<Rightarrow> [])"
| "ms ci WordB s =
     (let a = (case fst s of None \<Rightarrow> False | Some p \<Rightarrow> isWordChar p);
          b = (case fst (snd s) of [] \<Rightarrow> False | c # r \<Rightarrow> isWordChar c)
      in if a \<noteq> b then [s] else [])"
| "ms ci Eps s = [s]"
  by pat_completeness auto
termination
  by (relation "measures [\<lambda>(ci, r, s). size r, \<lambda>(ci, r, s). length (fst (snd s))]") auto

definition plus1 :: "re \<Rightarrow> re" where
  "plus1 a = Seq a (Star a)"

fun seqs :: "re list \<Rightarrow> re" where
  "seqs [] = Eps"
| "seqs [r] = r"
| "seqs (r # rs) = Seq r (seqs rs)"

definition litsU :: "utext \<Rightarrow> re" where
  "litsU t = seqs (map Lit t)"

definition lits :: "string \<Rightarrow> re" where
  "lits s = litsU (js s)"

text \<open>The first match at a position: the number of characters it consumes and its
  captures.\<close>

definition firstMatch ::
  "bool \<Rightarrow> re \<Rightarrow> nat option \<Rightarrow> utext \<Rightarrow> (nat \<times> (nat \<times> utext) list) option" where
  "firstMatch ci r p t =
     (case ms ci r (p, t, []) of [] \<Rightarrow> None
      | s # _ \<Rightarrow> Some (length t - length (fst (snd s)), snd (snd s)))"

text \<open>
  \<open>text.replace(/r/g, f)\<close>: the leftmost match is replaced and the search goes on behind
  it; after an empty match the next character is copied and the search goes on behind
  that. \<open>f\<close> gets the matched text and the captures. \<open>skip\<close> counts the characters of the
  current match that are still to be passed over.
\<close>

fun scanReplace ::
  "bool \<Rightarrow> re \<Rightarrow> (utext \<Rightarrow> (nat \<times> utext) list \<Rightarrow> utext) \<Rightarrow> nat option \<Rightarrow> nat \<Rightarrow> utext \<Rightarrow> utext" where
  "scanReplace ci r f p skip [] =
     (case firstMatch ci r p [] of None \<Rightarrow> [] | Some (n, cs) \<Rightarrow> f [] cs)"
| "scanReplace ci r f p skip (c # t) =
     (if skip > 0 then scanReplace ci r f (Some c) (skip - 1) t
      else (case firstMatch ci r p (c # t) of
              None \<Rightarrow> c # scanReplace ci r f (Some c) 0 t
            | Some (n, cs) \<Rightarrow>
                if n = 0 then f [] cs @ c # scanReplace ci r f (Some c) 0 t
                else f (take n (c # t)) cs @ scanReplace ci r f (Some c) (n - 1) t))"

definition replaceAll ::
  "bool \<Rightarrow> re \<Rightarrow> (utext \<Rightarrow> (nat \<times> utext) list \<Rightarrow> utext) \<Rightarrow> utext \<Rightarrow> utext" where
  "replaceAll ci r f t = scanReplace ci r f None 0 t"

text \<open>\<open>/r/.test(text)\<close> for an expression without the \<open>g\<close> flag: some position matches.\<close>

fun scanTest :: "bool \<Rightarrow> re \<Rightarrow> nat option \<Rightarrow> utext \<Rightarrow> bool" where
  "scanTest ci r p [] = (firstMatch ci r p [] \<noteq> None)"
| "scanTest ci r p (c # t) = (firstMatch ci r p (c # t) \<noteq> None \<or> scanTest ci r (Some c) t)"

definition reTest :: "bool \<Rightarrow> re \<Rightarrow> utext \<Rightarrow> bool" where
  "reTest ci r t = scanTest ci r None t"

text \<open>A capture in a replacement (\<open>$1\<close>, or a callback parameter under \<open>|| ""\<close>): the
  empty text when the group did not take part.\<close>

definition cap :: "(nat \<times> utext) list \<Rightarrow> nat \<Rightarrow> utext" where
  "cap cs i = (case map_of cs i of Some t \<Rightarrow> t | None \<Rightarrow> [])"

definition const :: "utext \<Rightarrow> utext \<Rightarrow> (nat \<times> utext) list \<Rightarrow> utext" where
  "const repl m cs = repl"

text \<open>Recurring pieces: \<open>\s\<close>, \<open>\s*\<close>, \<open>[^\n]\<close>, \<open>[^\S\r\n]*\<close>, and the class
  \<open>[\p{So}\uFE0F]\<close>, which without the \<open>u\<close> flag is the set of the characters \<open>p\<close>, \<open>{\<close>,
  \<open>S\<close>, \<open>o\<close>, \<open>}\<close> and U+FE0F, and with it the property and U+FE0F.\<close>

definition sp :: re where "sp = Cls False [CSpace]"
definition ws :: re where "ws = Star sp"
definition notNl :: re where "notNl = Cls True [CChar 10]"
definition hws :: re where "hws = Star (Cls True [CNonSpace, CChar 13, CChar 10])"
definition soPlain :: re where
  "soPlain = Cls False [CChar 112, CChar 123, CChar 83, CChar 111, CChar 125, CChar 65039]"
definition soUnicode :: re where "soUnicode = Cls False [CSo, CChar 65039]"

text \<open>\<open>String.prototype.split("\n")\<close>.\<close>

fun splitLines :: "utext \<Rightarrow> utext list" where
  "splitLines [] = [[]]"
| "splitLines (c # t) =
     (if c = 10 then [] # splitLines t
      else (case splitLines t of l # ls \<Rightarrow> (c # l) # ls | [] \<Rightarrow> [[c]]))"

section \<open>Style helpers (both views)\<close>

text \<open>
  \<open>hashSeed\<close>: \<open>h = (h * 31 + s.charCodeAt(i)) >>> 0\<close> over the characters of the seed,
  a 32-bit unsigned value. Seeds are ASCII, so code points and UTF-16 units coincide.
\<close>

definition hashSeed :: "utext \<Rightarrow> 32 word" where
  "hashSeed seed = foldl (\<lambda>h c. h * 31 + of_nat c) 0 seed"

definition pickFrom :: "utext list \<Rightarrow> utext \<Rightarrow> string \<Rightarrow> utext" where
  "pickFrom options seed salt =
     (if options = [] then []
      else let idx = unat (hashSeed (seed @ js '':'' @ js salt)) mod length options
           in options ! idx)"

text \<open>\<open>stripEmojis\<close>: \<open>replace(/[\u{1F300}-\u{1FAFF}\u{2600}-\u{27BF}]/gu, "")\<close>.\<close>

definition reEmoji :: re where
  "reEmoji = Cls False [CRange 127744 129791, CRange 9728 10175]"

definition stripEmojis :: "utext \<Rightarrow> utext" where
  "stripEmojis t = replaceAll False reEmoji (const []) t"

section \<open>Preblast view: style tables\<close>

text \<open>\<open>EMOJI_ROTATION\<close> of the preblast view, as code points, and \<open>buildDdTdBlock\<close>; 8212
  is the em dash.\<close>

definition preblastEmojiDate :: "utext list" where
  "preblastEmojiDate = [[128467, 65039], [128197], [9200], [8986], [128290]]"

definition preblastEmojiQ :: "utext list" where
  "preblastEmojiQ = [[128170], [127947, 65039], [129489, 8205, 128170], [129517], [128737, 65039]]"

definition preblastEmojiBring :: "utext list" where
  "preblastEmojiBring = [[127890], [129523], [129506], [129508], [129475]]"

definition buildDdTdBlock :: "utext \<Rightarrow> utext" where
  "buildDdTdBlock seed =
     (let variants =
        [js ''DD/TD '' @ [8212] @ js '' drop it in comments'',
         js ''DD '' @ [8212] @ js '' comment below'' @ [10] @ js ''TD '' @ [8212] @ js '' comment below'',
         js ''DD '' @ [8212] @ js '' Comment Below'' @ [10] @ js ''TD - Comment Below'',
         js ''DD (Comment Below)'' @ [10] @ js ''TD (Comment Below)'',
         js ''DD/TD - Drop it in the comments'',
         js ''DD '' @ [8212] @ js '' comment below'' @ [10, 10] @ js ''TD '' @ [8212] @ js '' comment below'']
      in pickFrom variants seed ''ddtd'')"

definition preblastShouldUseEmojis :: "utext \<Rightarrow> bool \<Rightarrow> bool \<Rightarrow> bool" where
  "preblastShouldUseEmojis seed forceNoEmojis minimalEmojis =
     (if forceNoEmojis \<or> minimalEmojis then False
      else let n = unat (hashSeed (seed @ js '':emoji'')) mod 100 in n < 40)"

section \<open>Preblast view: normalizeAiPreblast and stripMarkdownImageLines\<close>

text \<open>The regular expressions of \<open>normalizeAiPreblast\<close>, in the order of the source.
  128205 is the pin, 127890 the backpack, 128170 the biceps and 128235 the mailbox
  emoji.\<close>

definition tdCommentBelow :: re where
  "tdCommentBelow = seqs [lits ''TD'', ws, lits ''(Comment Below)'']"

definition bringColon :: re where
  "bringColon = seqs [lits ''Bring'', ws, Lit 58]"

definition optBackpack :: re where
  "optBackpack = Opt (Seq (Lit 127890) ws)"

definition reCrLf :: re where "reCrLf = Seq (Lit 13) (Lit 10)"
definition rePinWhere :: re where "rePinWhere = seqs [Lit 128205, ws, lits ''WHERE'', ws, Lit 58]"
definition reLineWhere :: re where "reLineWhere = seqs [Bol, ws, lits ''WHERE'', ws, Lit 58]"
definition reBackpackBring :: re where
  "reBackpackBring = seqs [Lit 127890, ws, lits ''BRING'', ws, Lit 58]"
definition reDdComment :: re where
  "reDdComment = seqs [lits ''DD'', ws, Lit 40, ws, lits ''comment'', ws, lits ''below'', ws, Lit 41]"
definition reTdComment :: re where
  "reTdComment = seqs [lits ''TD'', ws, Lit 40, ws, lits ''comment'', ws, lits ''below'', ws, Lit 41]"
definition reTdNlBackpack :: re where
  "reTdNlBackpack = seqs [tdCommentBelow, ws, Lit 10, ws, Lit 127890]"
definition reTdNlBring :: re where
  "reTdNlBring = seqs [tdCommentBelow, ws, Lit 10, ws, bringColon]"
definition reTdNls :: re where
  "reTdNls = seqs [tdCommentBelow, ws, plus1 (Lit 10)]"
definition reTdBring :: re where
  "reTdBring = seqs [tdCommentBelow, ws, bringColon]"
definition reTdNonSpace :: re where
  "reTdNonSpace = seqs [tdCommentBelow, ws, Star (Lit 10), Grp 1 (Cls False [CNonSpace])]"
definition reTdBringGroup :: re where
  "reTdBringGroup = seqs [tdCommentBelow, ws, Grp 1 bringColon]"
definition reTdNlsBringGroup :: re where
  "reTdNlsBringGroup = seqs [tdCommentBelow, ws, plus1 (Lit 10), Grp 1 (Seq optBackpack bringColon)]"
definition reTdGuard1 :: re where
  "reTdGuard1 =
     seqs [tdCommentBelow, ws, plus1 (seqs [Opt (Lit 13), Lit 10, ws]), optBackpack, bringColon]"
definition reTdGuard2 :: re where
  "reTdGuard2 = seqs [tdCommentBelow, ws, optBackpack, bringColon]"

definition qLineBiceps :: re where
  "qLineBiceps = Grp 1 (seqs [Lit 128170, ws, Lit 81, ws, Lit 58, Star Dot])"
definition qLineBicepsTight :: re where
  "qLineBicepsTight = Grp 1 (seqs [Lit 128170, Lit 81, ws, Lit 58, Star Dot])"
definition qLinePlain :: re where
  "qLinePlain = Grp 1 (seqs [Bol, ws, Lit 81, ws, Lit 58, Star Dot])"
definition pinLabel :: "string \<Rightarrow> re" where
  "pinLabel l = Grp 2 (seqs [Lit 128205, ws, lits l, ws, Lit 58])"
definition lineLabel :: "string \<Rightarrow> re" where
  "lineLabel l = Grp 2 (seqs [Bol, ws, lits l, ws, Lit 58])"

definition reDateStray :: re where
  "reDateStray = seqs [Bol, hws, Star soUnicode, ws, lits ''Date/Time:'']"
definition reBeforeDate :: re where
  "reBeforeDate = seqs [Grp 1 notNl, Lit 10, Grp 2 (lits ''Date/Time:'')]"
definition reAfterDate :: re where
  "reAfterDate = seqs [Bol, Grp 1 (Seq (lits ''Date/Time:'') (Star notNl)), Grp 2 (Star (Lit 10))]"
definition reDateDd :: re where
  "reDateDd =
     seqs [Bol, Grp 1 (Seq (lits ''Date/Time:'') (Star notNl)), plus1 (Lit 10),
           Grp 2 (seqs [lits ''DD'', ws, lits ''(Comment Below)''])]"
definition reLineBring :: re where "reLineBring = seqs [Bol, ws, bringColon]"
definition reWeather :: re where
  "reWeather = seqs [Bol, ws, lits ''Weather'', ws, Lit 58, Star notNl, Opt (Lit 10)]"
definition reAddressLine :: re where
  "reAddressLine =
     seqs [Bol, ws, Opt (Seq (Lit 128235) ws), lits ''Address'', ws, Lit 58, Star notNl, Opt (Lit 10)]"
definition reAddrAlone :: "utext \<Rightarrow> re" where
  "reAddrAlone addr = seqs [Bol, ws, litsU addr, ws, Eol]"
definition reAoWhere :: re where
  "reAoWhere =
     seqs [Bol, Opt (Grp 1 (Seq (Lit 128205) ws)), Grp 2 (Alt (lits ''AO'') (lits ''Where'')),
           ws, Lit 58, ws, Grp 3 (plus1 Dot), Eol]"
definition reQLabel :: re where
  "reQLabel = seqs [Bol, hws, Star soPlain, ws, Lit 81, ws, Lit 58]"
definition reDateLabel :: re where
  "reDateLabel =
     seqs [Bol, hws, Star soPlain, ws, Grp 1 (Alt (lits ''Date/Time'') (lits ''Date'')), ws, Lit 58]"
definition reBringLabel :: re where
  "reBringLabel = seqs [Bol, hws, Star soPlain, ws, bringColon]"
definition reDdTdLine :: re where
  "reDdTdLine =
     seqs [Start, ws,
           Grp 1 (Alt (lits ''DD'') (Alt (lits ''TD'') (Alt (lits ''DD/TD'')
                  (Alt (lits ''Double Down'') (lits ''Triple Down''))))),
           WordB]"

text \<open>The callback of the AO/Where rule.\<close>

definition aoWhereRepl :: "utext \<Rightarrow> utext \<Rightarrow> (nat \<times> utext) list \<Rightarrow> utext" where
  "aoWhereRepl addr m cs =
     (let p1 = cap cs 1; label = cap cs 2; restStr = trim (cap cs 3) in
      if restStr = [] then m
      else if includesStr (toLowerCaseU restStr) (toLowerCaseU addr)
        then p1 @ label @ js '': '' @ restStr
        else p1 @ label @ js '': '' @ restStr @ js '' ('' @ addr @ js '')'')"

text \<open>The DD/TD step: the lines that start with a DD/TD label are dropped and the
  block of the seed is spliced in where the first of them was.\<close>

definition isDdTdLine :: "utext \<Rightarrow> bool" where
  "isDdTdLine line = reTest True reDdTdLine (trim line)"

fun ddTdScan :: "utext list \<Rightarrow> utext list \<Rightarrow> int \<Rightarrow> utext list \<times> int" where
  "ddTdScan [] kept insertAt = (kept, insertAt)"
| "ddTdScan (line # lines) kept insertAt =
     (if isDdTdLine line
      then ddTdScan lines kept (if insertAt = -1 then int (length kept) else insertAt)
      else ddTdScan lines (kept @ [line]) insertAt)"

definition ddTdStep :: "utext \<Rightarrow> utext \<Rightarrow> utext" where
  "ddTdStep styleSeed out =
     (let ddTdBlock = buildDdTdBlock styleSeed in
      if ddTdBlock \<noteq> [] then
        (let ddtdLines = splitLines ddTdBlock;
             (kept, insertAt) = ddTdScan (splitLines out) [] (-1)
         in if insertAt \<noteq> -1
            then joinWith [10] (take (nat insertAt) kept @ ddtdLines @ drop (nat insertAt) kept)
            else out)
      else out)"

definition twoNl :: "(nat \<times> utext) list \<Rightarrow> utext" where
  "twoNl cs = cap cs 1 @ [10, 10] @ cap cs 2"

definition tdThen :: "utext \<Rightarrow> utext" where
  "tdThen t = js ''TD (Comment Below)'' @ [10, 10] @ t"

definition normalizeAiPreblast :: "utext \<Rightarrow> utext \<Rightarrow> utext \<Rightarrow> utext \<Rightarrow> bool \<Rightarrow> utext" where
  "normalizeAiPreblast raw address weatherSummary styleSeed useEmojis =
     (let text = replaceAll False reCrLf (const [10]) raw;
          out = replaceAll True rePinWhere (const (128205 # js ''Where:'')) text;
          out = replaceAll True reLineWhere (const (js ''Where:'')) out;
          out = replaceAll True reBackpackBring (const (127890 # js '' Bring:'')) out;
          out = replaceAll True reDdComment (const (js ''DD (Comment Below)'')) out;
          out = replaceAll True reTdComment (const (js ''TD (Comment Below)'')) out;
          out = replaceAll True reTdComment (const (js ''TD (Comment Below)'')) out;
          out = replaceAll True reTdNlBackpack (const (tdThen [127890])) out;
          out = replaceAll True reTdNlBring (const (tdThen (js ''Bring:''))) out;
          out = replaceAll True reTdNls (const (tdThen [])) out;
          out = replaceAll True reTdBring (const (tdThen (js ''Bring:''))) out;
          out = replaceAll True reTdNonSpace (\<lambda>m cs. tdThen (cap cs 1)) out;
          out = replaceAll True reTdBringGroup (\<lambda>m cs. tdThen (cap cs 1)) out;
          out = replaceAll True reTdNlsBringGroup (\<lambda>m cs. tdThen (cap cs 1)) out;
          out = replaceAll True reTdGuard1 (const (tdThen (js ''Bring:''))) out;
          out = replaceAll True reTdGuard2 (const (tdThen (js ''Bring:''))) out;
          out = replaceAll True (seqs [qLineBiceps, Lit 10, pinLabel ''Where'']) (\<lambda>m. twoNl) out;
          out = replaceAll True (seqs [qLineBicepsTight, Lit 10, pinLabel ''Where'']) (\<lambda>m. twoNl) out;
          out = replaceAll True (seqs [qLinePlain, Lit 10, pinLabel ''Where'']) (\<lambda>m. twoNl) out;
          out = replaceAll True (seqs [qLinePlain, Lit 10, lineLabel ''Where'']) (\<lambda>m. twoNl) out;
          out = replaceAll True (seqs [qLineBiceps, Lit 10, pinLabel ''AO'']) (\<lambda>m. twoNl) out;
          out = replaceAll True (seqs [qLineBicepsTight, Lit 10, pinLabel ''AO'']) (\<lambda>m. twoNl) out;
          out = replaceAll True (seqs [qLinePlain, Lit 10, pinLabel ''AO'']) (\<lambda>m. twoNl) out;
          out = replaceAll True (seqs [qLinePlain, Lit 10, lineLabel ''AO'']) (\<lambda>m. twoNl) out;
          out = replaceAll True reDateStray (const (js ''Date/Time:'')) out;
          out = replaceAll True reBeforeDate (\<lambda>m. twoNl) out;
          out = replaceAll True reAfterDate (\<lambda>m cs. cap cs 1 @ [10, 10]) out;
          out = replaceAll True reDateDd (\<lambda>m. twoNl) out;
          out = replaceAll True reLineBring (const (js ''Bring:'')) out;
          out = replaceAll True reWeather (const []) out;
          addr = trim address;
          out = (if addr \<noteq> [] then
                   (let out = replaceAll True reAddressLine (const []) out;
                        out = replaceAll True (reAddrAlone addr) (const []) out;
                        out = replaceAll True reAoWhere (aoWhereRepl addr) out
                    in out)
                 else out);
          qEmoji = (if useEmojis then pickFrom preblastEmojiQ styleSeed ''q'' else []);
          dateEmoji = (if useEmojis then pickFrom preblastEmojiDate styleSeed ''date'' else []);
          bringEmoji = (if useEmojis then pickFrom preblastEmojiBring styleSeed ''bring'' else []);
          qPrefix = (if useEmojis \<and> qEmoji \<noteq> [] then qEmoji @ [32] else []);
          datePrefix = (if useEmojis \<and> dateEmoji \<noteq> [] then dateEmoji @ [32] else []);
          bringPrefix = (if useEmojis \<and> bringEmoji \<noteq> [] then bringEmoji @ [32] else []);
          out = replaceAll True reQLabel (const (qPrefix @ js ''Q:'')) out;
          out = replaceAll True reDateLabel (const (datePrefix @ js ''Date/Time:'')) out;
          out = replaceAll True reBringLabel (const (bringPrefix @ js ''Bring:'')) out;
          out = ddTdStep styleSeed out
      in out)"

text \<open>\<open>stripMarkdownImageLines\<close>: the image-line expression, then \<open>/\n{3,}/g\<close>, then
  \<open>trim\<close>. 33 is \<open>!\<close>, 91 and 93 the square brackets, 40 and 41 the parentheses.\<close>

definition reImageLine :: re where
  "reImageLine =
     seqs [Bol, ws, Lit 33, Lit 91, Star (Cls True [CChar 93]), Lit 93, Lit 40,
           plus1 (Cls True [CChar 41]), Lit 41, ws, Eol]"

definition reThreeNl :: re where
  "reThreeNl = seqs [Lit 10, Lit 10, Lit 10, Star (Lit 10)]"

definition stripMarkdownImageLines :: "utext \<Rightarrow> utext" where
  "stripMarkdownImageLines t =
     trim (replaceAll False reThreeNl (const [10, 10]) (replaceAll True reImageLine (const []) t))"

text \<open>
  The post-success normalisation of the preblast handler for the standard layout:
  \<open>cleanedRaw\<close>, \<open>normalizeAiPreblast\<close>, the emoji stripping of the result and
  \<open>stripMarkdownImageLines\<close>, with the handler's \<open>weatherSummaryFinal = ""\<close>.
\<close>

definition normalizePreblastOutput ::
  "bool \<Rightarrow> bool \<Rightarrow> bool \<Rightarrow> utext \<Rightarrow> utext \<Rightarrow> utext \<Rightarrow> utext" where
  "normalizePreblastOutput minimalEmojis forceNoEmojis useEmojis address styleSeed raw =
     (let rawText = raw;
          cleanedRaw = (if minimalEmojis \<or> forceNoEmojis \<or> \<not> useEmojis
                        then stripEmojis rawText else rawText);
          normalized = normalizeAiPreblast cleanedRaw address [] styleSeed useEmojis
      in stripMarkdownImageLines
           (if forceNoEmojis \<or> \<not> useEmojis then stripEmojis normalized else normalized))"

section \<open>Numbers, exercises and rounds\<close>

text \<open>A number in a template literal: the decimal digits of a natural number.\<close>

function showNat :: "nat \<Rightarrow> utext" where
  "showNat n = (if n < 10 then [48 + n] else showNat (n div 10) @ [48 + n mod 10])"
  by pat_completeness auto
termination
  by (relation "measure id") auto

declare showNat.simps [simp del]

text \<open>\<open>Exercise\<close> and \<open>WorkoutRound\<close> (types.ts). An optional text that is absent is the
  empty text (the code only tests such fields for truthiness); an absent number is 0.\<close>

record exercise =
  exId :: utext
  exName :: utext
  reps :: utext
  cadence :: utext

record workoutRound =
  roundId :: utext
  roundName :: utext
  exercises :: "exercise list"
  description :: utext
  timerSeconds :: nat
  timerRepeatCount :: nat

text \<open>\<open>compactOptionalString\<close>: \<open>(s ?? "").trim()\<close>.\<close>

definition compactOptionalString :: "utext \<Rightarrow> utext" where
  "compactOptionalString s = trim s"

text \<open>BackblastGeneratorView.tsx, \<open>formatExercise\<close> and \<open>formatThang\<close>; 8226 is the bullet,
  8212 the em dash and 215 the multiplication sign.\<close>

definition formatExercise :: "exercise \<Rightarrow> utext" where
  "formatExercise e =
     (let line = [8226, 32] @ orElse (exName e) (js ''TBD'');
          line = (if reps e \<noteq> [] then line @ js '' x'' @ reps e else line);
          line = (if cadence e \<noteq> [] then line @ js '' ('' @ cadence e @ js '')'' else line)
      in line)"

definition formatRound :: "workoutRound \<Rightarrow> nat \<Rightarrow> utext" where
  "formatRound rd i =
     (let totalSeconds = timerSeconds rd;
          mins = totalSeconds div 60;
          secs = totalSeconds mod 60;
          timeLabel =
            (if totalSeconds > 0 then
               (let t = showNat mins @ js '' minutes'';
                    t = (if secs > 0 then t @ js '' '' @ showNat secs @ js '' seconds'' else t);
                    t = (if timerRepeatCount rd \<noteq> 0 \<and> timerRepeatCount rd > 1
                         then t @ js '' '' @ [215] @ js '' '' @ showNat (timerRepeatCount rd)
                                @ js '' rounds''
                         else t)
                in t)
             else []);
          nm = orElse (roundName rd) (js ''Round '' @ showNat (i + 1));
          title = (if timeLabel \<noteq> []
                   then js ''**'' @ nm @ js ''** '' @ [8212] @ js '' '' @ timeLabel
                   else js ''**'' @ nm @ js ''**'');
          descRaw = (if compactOptionalString (description rd) \<noteq> []
                     then trim (description rd) else []);
          exs = joinWith [10] (map formatExercise (exercises rd))
      in if exs = [] \<and> descRaw \<noteq> [] then descRaw
         else (let desc = (if descRaw \<noteq> [] then descRaw @ [10] else []);
                   body = orElse exs (js ''As called by the Q.'')
               in title @ [10] @ desc @ body))"

definition formatThang :: "workoutRound list \<Rightarrow> utext" where
  "formatThang rounds =
     (let cleaned = filter (\<lambda>r. exercises r \<noteq> [] \<or> compactOptionalString (description r) \<noteq> [])
                      rounds
      in if cleaned = [] then js ''A glorious beatdown ensued.''
         else joinWith [10, 10] (map (\<lambda>(rd, i). formatRound rd i)
                                     (zip cleaned [0 ..< length cleaned])))"

section \<open>Backblast view: style helpers\<close>

text \<open>\<open>EMOJI_ROTATION\<close> of the backblast view, as code points.\<close>

definition bbEmojiAo :: "utext list" where
  "bbEmojiAo = [[128205], [129517], [128506, 65039], [128204]]"
definition bbEmojiDate :: "utext list" where
  "bbEmojiDate = [[128197], [128467, 65039], [9200], [8986]]"
definition bbEmojiQ :: "utext list" where
  "bbEmojiQ = [[127913], [128170], [129506], [128737, 65039]]"
definition bbEmojiPax :: "utext list" where
  "bbEmojiPax = [[128101], [129782], [129309], [127947, 65039]]"
definition bbEmojiDisclaimer :: "utext list" where
  "bbEmojiDisclaimer = [[128680], [9888, 65039], [128679]]"
definition bbEmojiCount :: "utext list" where
  "bbEmojiCount = [[128290], [129518], [128202]]"

text \<open>
  \<open>buildStyleSeed\<close>: \<open>`${Date.now()}-${Math.random().toString(36).slice(2, 8)}`\<close>. The
  clock value and the digits of the random number behind \<open>0.\<close> are the two arguments:
  the function reads them from the environment.
\<close>

definition buildStyleSeed :: "nat \<Rightarrow> utext \<Rightarrow> utext" where
  "buildStyleSeed nowMs randomDigits = showNat nowMs @ js ''-'' @ take 6 randomDigits"

definition shouldUseEmojis :: "utext \<Rightarrow> bool \<Rightarrow> bool \<Rightarrow> utext \<Rightarrow> bool" where
  "shouldUseEmojis seed forceNoEmojis minimalEmojis aoIdArg =
     (if forceNoEmojis \<or> minimalEmojis then False
      else let n = unat (hashSeed (seed @ js '':emoji'')) mod 100;
               pct = (if aoIdArg = js ''compass'' then 70 else 40 :: nat)
           in n < pct)"

record emojiMap =
  emAo :: utext
  emDate :: utext
  emQ :: utext
  emPax :: utext
  emDisclaimer :: utext
  emCount :: utext

definition buildEmojiMap :: "utext \<Rightarrow> bool \<Rightarrow> emojiMap" where
  "buildEmojiMap seed useEmojis =
     (if \<not> useEmojis
      then \<lparr>emAo = [], emDate = [], emQ = [], emPax = [], emDisclaimer = [], emCount = []\<rparr>
      else \<lparr>emAo = pickFrom bbEmojiAo seed ''ao'',
            emDate = pickFrom bbEmojiDate seed ''date'',
            emQ = pickFrom bbEmojiQ seed ''q'',
            emPax = pickFrom bbEmojiPax seed ''pax'',
            emDisclaimer = pickFrom bbEmojiDisclaimer seed ''disclaimer'',
            emCount = pickFrom bbEmojiCount seed ''count''\<rparr>)"

text \<open>\<open>normalizeBackblastEmojis\<close>. The six expressions have the flags \<open>gim\<close> and no \<open>u\<close>.\<close>

definition bbLabelRe :: "string \<Rightarrow> re" where
  "bbLabelRe l = seqs [Bol, ws, Star soPlain, ws, lits l, ws, Lit 58]"

definition bbDisclaimerRe :: re where
  "bbDisclaimerRe = seqs [Bol, ws, Star soPlain, ws, lits ''Disclaimer'', ws]"

definition normalizeBackblastEmojis :: "utext \<Rightarrow> utext \<Rightarrow> bool \<Rightarrow> utext" where
  "normalizeBackblastEmojis text seed useEmojis =
     (let out = text in
      if \<not> useEmojis then stripEmojis out
      else
        (let e = buildEmojiMap seed True;
             ao = (if emAo e \<noteq> [] then emAo e @ [32] else []);
             date = (if emDate e \<noteq> [] then emDate e @ [32] else []);
             q = (if emQ e \<noteq> [] then emQ e @ [32] else []);
             pax = (if emPax e \<noteq> [] then emPax e @ [32] else []);
             disclaimer = (if emDisclaimer e \<noteq> [] then emDisclaimer e @ [32] else []);
             count = (if emCount e \<noteq> [] then emCount e @ [32] else []);
             out = replaceAll True (bbLabelRe ''AO'') (const (ao @ js ''AO:'')) out;
             out = replaceAll True (bbLabelRe ''Date/Time'') (const (date @ js ''Date/Time:'')) out;
             out = replaceAll True (bbLabelRe ''Q'') (const (q @ js ''Q:'')) out;
             out = replaceAll True (bbLabelRe ''PAX'') (const (pax @ js ''PAX:'')) out;
             out = replaceAll True bbDisclaimerRe (const (disclaimer @ js ''Disclaimer'')) out;
             out = replaceAll True (bbLabelRe ''Count O Rama'') (const (count @ js ''Count O Rama:'')) out
         in out))"

section \<open>The meeting location and the hashtag line\<close>

text \<open>The active AO, from the AO context, with its fields \<open>id\<close>, \<open>shortName\<close>,
  \<open>displayName\<close>, \<open>whereName\<close>, \<open>address\<close>, \<open>meetingPoint\<close> and \<open>hashtags\<close>.
  \<open>isFriday\<close> stands for
  \<open>isFridayFromDateString\<close> of the workout date, which parses the date with the
  JavaScript \<open>Date\<close> object.\<close>

record ao =
  aoIdent :: utext
  aoShortName :: utext
  aoDisplayName :: utext
  aoWhereName :: utext
  aoAddress :: utext
  aoMeetingPoint :: utext
  aoHashtags :: "utext list"

text \<open>The filter with the \<open>seen\<close> set in \<open>buildHashtags\<close>: a tag is kept when its key is
  not empty and was not seen before.\<close>

fun dedupeBy :: "(utext \<Rightarrow> utext) \<Rightarrow> utext list \<Rightarrow> utext list \<Rightarrow> utext list" where
  "dedupeBy key seen [] = []"
| "dedupeBy key seen (t # ts) =
     (let k = key t in
      if k = [] then dedupeBy key seen ts
      else if k \<in> set seen then dedupeBy key seen ts
      else t # dedupeBy key (k # seen) ts)"

text \<open>\<open>buildHashtags\<close> of the backblast view, for \<open>kind = "backblast"\<close>.\<close>

definition bbBuildHashtags :: "utext list \<Rightarrow> utext \<Rightarrow> bool \<Rightarrow> utext list" where
  "bbBuildHashtags tags aoIdArg isFriday =
     (let extra = [js ''#backblast''];
          extraAoTags = (if aoIdArg = js ''thehill'' \<and> isFriday then [js ''#hillybillyshuffle''] else []);
          extraAoTags = (if aoIdArg = js ''theshadows'' then extraAoTags @ [js ''#backblastshadows'']
                         else extraAoTags)
      in dedupeBy (\<lambda>t. trim (toLowerCaseU t)) [] (tags @ extra @ extraAoTags))"

text \<open>\<open>buildHashtags\<close> of the preblast view, for \<open>kind = "preblast"\<close>.\<close>

definition pbBuildHashtags :: "utext list \<Rightarrow> utext \<Rightarrow> bool \<Rightarrow> utext list \<Rightarrow> utext list" where
  "pbBuildHashtags tags aoIdArg isFriday userHashtags =
     (let extra = [js ''#preblast''];
          extraAoTags = (if aoIdArg = js ''thehill'' \<and> isFriday then [js ''#hillybillyshuffle''] else [])
      in dedupeBy (\<lambda>t. toLowerCaseU (trim t)) [] (extra @ tags @ userHashtags @ extraAoTags))"

definition aoLabel :: "ao \<Rightarrow> utext" where
  "aoLabel a = (if aoIdent a = js ''theshadows'' then js ''Shadows''
                else orElse (aoShortName a) (aoDisplayName a))"

definition forceNoEmojis :: "ao \<Rightarrow> bool" where
  "forceNoEmojis a = (aoIdent a = js ''theshadows'')"

definition forceNoAiAo :: "ao \<Rightarrow> bool" where
  "forceNoAiAo a =
     (aoIdent a \<in> set [js ''thehill'', js ''phoenixrising'', js ''gatorbay'', js ''theshadows''])"

section \<open>Backblast view: the No-AI formatter of the standard layout\<close>

text \<open>
  The form state of \<open>BackblastGeneratorView\<close> that the standard layout reads (\<open>qName\<close>,
  \<open>longDate\<close>, \<open>workoutTime\<close>, \<open>paxAttendance\<close>, \<open>warmup\<close>, \<open>warmupDescription\<close>,
  \<open>theThang\<close>, \<open>announcements\<close>, \<open>taps\<close>, \<open>aiOptions.minimalEmojis\<close>), and the argument
  object of \<open>formatBackblastNoAI_Standard\<close>.
\<close>

record bbForm =
  bbQName :: utext
  bbLongDate :: utext
  bbWorkoutTime :: utext
  bbPaxAttendance :: "paxAttendance list"
  bbWarmup :: "exercise list"
  bbWarmupDescription :: utext
  bbTheThang :: "workoutRound list"
  bbAnnouncements :: utext
  bbTaps :: utext
  bbMinimalEmojis :: bool

record standardArgs =
  argQName :: utext
  argLongDate :: utext
  argWorkoutTime :: utext
  argPax :: "paxAttendance list"
  argWarmup :: "exercise list"
  argWarmupDescription :: utext
  argThang :: "workoutRound list"
  argAnnouncements :: utext
  argTaps :: utext
  argStyleSeed :: utext
  argUseEmojis :: bool

text \<open>The line the Q replaces with his own message; 8212 is the em dash, 8220 and 8221
  the double quotation marks.\<close>

definition clickLine :: "string \<Rightarrow> utext" where
  "clickLine what =
     js ''***Q '' @ [8212] @ js '' CLICK '' @ [8220] @ js ''COPY & START POST IN BAND'' @ [8221]
       @ js '', THEN REPLACE THIS WITH YOUR '' @ js what @ js ''***''"

text \<open>
  \<open>formatBackblastNoAI_Standard\<close>. Besides its argument object the function reads the
  component's \<open>activeAo\<close>, \<open>longDate\<close>, \<open>aiOptions\<close> and \<open>backblastAoLabel\<close>, and it calls
  \<open>buildStyleSeed()\<close>, that is, the clock and the random number generator: \<open>nowMs\<close> and
  \<open>randomDigits\<close> are what it reads there.
\<close>

definition formatBackblastNoAI_Standard ::
  "ao \<Rightarrow> bbForm \<Rightarrow> bool \<Rightarrow> (utext \<rightharpoonup> utext) \<Rightarrow> nat \<Rightarrow> utext \<Rightarrow> standardArgs \<Rightarrow> utext" where
  "formatBackblastNoAI_Standard activeAo form isFriday dir nowMs randomDigits args =
     (let totalPax = length (filter (\<lambda>p. \<not> starsky p) (argPax args));
          cleanQName = stripAt (argQName args);
          paxSection = formatPaxSectionStandard dir (argPax args);
          thangSection = formatThang (argThang args);
          emoji = buildEmojiMap (argStyleSeed args) (argUseEmojis args);
          aoLabelT = (if emAo emoji \<noteq> [] then emAo emoji @ js ''AO'' else js ''AO'');
          dateLabel = (if emDate emoji \<noteq> [] then emDate emoji @ js ''Date/Time'' else js ''Date/Time'');
          qLabel = (if emQ emoji \<noteq> [] then emQ emoji @ js ''Q'' else js ''Q'');
          paxLabel = (if emPax emoji \<noteq> [] then emPax emoji @ js ''PAX'' else js ''PAX'');
          disclaimerLabel = (if emDisclaimer emoji \<noteq> [] then emDisclaimer emoji @ js ''Disclaimer''
                             else js ''Disclaimer'');
          countLabel = (if emCount emoji \<noteq> [] then emCount emoji @ js ''Count O Rama''
                        else js ''Count O Rama'');
          warmupLines = (if compactOptionalString (argWarmupDescription args) \<noteq> []
                         then [trim (argWarmupDescription args), []] else []);
          warmupExercises = joinWith [10] (map formatExercise (argWarmup args));
          warmupLines = (if warmupExercises \<noteq> [] then warmupLines @ [warmupExercises]
                         else warmupLines);
          warmupSection = joinWith [10] warmupLines;
          styleSeed = buildStyleSeed nowMs randomDigits;
          useEmojis = shouldUseEmojis styleSeed (forceNoEmojis activeAo) (bbMinimalEmojis form)
                        (aoIdent activeAo);
          hashtagLine = joinWith [32] (bbBuildHashtags (aoHashtags activeAo) (aoIdent activeAo) isFriday);
          lines = [hashtagLine, [], clickLine ''MESSAGE'', [],
                   aoLabelT @ js '': '' @ aoLabel activeAo,
                   dateLabel @ js '': '' @ argLongDate args @ js '' ('' @ argWorkoutTime args @ js '')'',
                   qLabel @ js '': '' @ cleanQName,
                   paxLabel @ js '': '' @ showNat totalPax @ js '' Total'',
                   []];
          lines = (if paxSection \<noteq> [] then lines @ [paxSection, []] else lines);
          lines = lines @
                  [disclaimerLabel @ js '' (Standard disclaimer)'',
                   countLabel @ js '': '' @ showNat totalPax,
                   [],
                   js ''Warmup:'',
                   warmupSection,
                   [],
                   js ''The Thang:'',
                   thangSection,
                   [],
                   js ''Announcements: '' @ orElse (argAnnouncements args) (js ''None.''),
                   js ''TAPS: '' @ orElse (argTaps args) (js ''None.'')]
      in joinWith [10] lines)"

section \<open>Backblast view: the two handlers, standard layout\<close>

text \<open>
  What the handlers leave in the view: the text shown, the label set by \<open>markOutput\<close>
  and the loading flag. The banner and status strings (\<open>setError\<close>,
  \<open>setLoadingStatus\<close>) and the history log are left out. A handler is modelled for an
  AO that is not Jurassic Park.
\<close>

record viewOut =
  generatedText :: utext
  outputLabel :: utext
  isLoading :: bool

text \<open>What an \<open>async\<close> handler can reject with: a value thrown by the service layer, or
  the \<open>ReferenceError\<close> of an identifier that no enclosing scope declares.\<close>

datatype jsThrow = Thrown thrown | ReferenceError string

definition bbStandardArgs :: "bbForm \<Rightarrow> utext \<Rightarrow> bool \<Rightarrow> standardArgs" where
  "bbStandardArgs form styleSeed useEmojis =
     \<lparr>argQName = stripAt (bbQName form), argLongDate = bbLongDate form,
      argWorkoutTime = bbWorkoutTime form, argPax = validStandardPax (bbPaxAttendance form),
      argWarmup = bbWarmup form, argWarmupDescription = bbWarmupDescription form,
      argThang = bbTheThang form, argAnnouncements = bbAnnouncements form,
      argTaps = bbTaps form, argStyleSeed = styleSeed, argUseEmojis = useEmojis\<rparr>"

text \<open>\<open>handleFormatNoAI\<close>: \<open>draw\<close> is the clock value and random number its own
  \<open>buildStyleSeed()\<close> reads, \<open>draw'\<close> what the formatter reads afterwards.\<close>

definition bbHandleFormatNoAI ::
  "ao \<Rightarrow> bbForm \<Rightarrow> bool \<Rightarrow> (utext \<rightharpoonup> utext) \<Rightarrow> nat \<times> utext \<Rightarrow> nat \<times> utext \<Rightarrow> viewOut \<Rightarrow> viewOut" where
  "bbHandleFormatNoAI activeAo form isFriday dir draw draw' out =
     (if bbQName form = [] then out
      else if bbLongDate form = [] then out
      else
        (let styleSeed = buildStyleSeed (fst draw) (snd draw);
             useEmojis = shouldUseEmojis styleSeed (forceNoEmojis activeAo) False (aoIdent activeAo);
             formatted = formatBackblastNoAI_Standard activeAo form isFriday dir (fst draw') (snd draw')
                           (bbStandardArgs form styleSeed useEmojis);
             finalText = (if forceNoEmojis activeAo \<or> \<not> useEmojis then stripEmojis formatted
                          else formatted)
         in out\<lparr>generatedText := finalText, outputLabel := js ''Generated (No AI)'',
                isLoading := False\<rparr>))"

text \<open>
  \<open>handleGenerateAI\<close> uses the identifiers \<open>styleSeed\<close> and \<open>useEmojis\<close>. Neither its
  body nor the component nor the module declares them: the only declarations,
  \<open>const styleSeed = buildStyleSeed()\<close> and \<open>const useEmojis = shouldUseEmojis(...)\<close>, are
  local to \<open>formatBackblastNoAI_Standard\<close> and to \<open>handleFormatNoAI\<close>. Evaluating an
  undeclared identifier throws a \<open>ReferenceError\<close>.
\<close>

definition readStyleSeed :: "jsThrow + utext" where
  "readStyleSeed = Inl (ReferenceError ''styleSeed'')"

definition readUseEmojis :: "jsThrow + bool" where
  "readUseEmojis = Inl (ReferenceError ''useEmojis'')"

definition generatingPlaceholder :: utext where
  "generatingPlaceholder =
     js ''Generating backblast'' @ [8230] @ js '' (We'' @ [8217]
       @ js ''ll try for up to 60 seconds, then fall back to a non-AI template if needed.)''"

text \<open>
  \<open>handleGenerateAI\<close>. The \<open>try\<close> block awaits \<open>generateWithRetry\<close> and evaluates the
  arguments of \<open>normalizeBackblastEmojis(result, styleSeed, useEmojis)\<close> from left to
  right; the \<open>catch\<close> block evaluates the properties of the formatter's argument object
  in order, \<open>styleSeed\<close> among them; the \<open>finally\<close> block clears the loading flag. The
  result is \<open>Inl\<close> when the promise the handler returns is rejected.
\<close>

definition bbHandleGenerateAI ::
  "env \<Rightarrow> bool \<Rightarrow> ao \<Rightarrow> bbForm \<Rightarrow> bool \<Rightarrow> (utext \<rightharpoonup> utext) \<Rightarrow> nat \<times> utext \<Rightarrow> nat \<times> utext \<Rightarrow>
     clock \<Rightarrow> viewOut \<Rightarrow> (jsThrow + unit) \<times> viewOut \<times> clock" where
  "bbHandleGenerateAI E apiKey activeAo form isFriday dir draw draw' s out =
     (if forceNoAiAo activeAo
      then (Inr (), bbHandleFormatNoAI activeAo form isFriday dir draw draw' out, s)
      else if bbQName form = [] then (Inr (), out, s)
      else if bbLongDate form = [] then (Inr (), out, s)
      else
        (let out = out\<lparr>isLoading := True, generatedText := generatingPlaceholder\<rparr>;
             (r, s1) = generateWithRetry E apiKey (aoIdent activeAo \<noteq> []) s;
             tried =
               (case r of
                  Inl e \<Rightarrow> Inl (Thrown e)
                | Inr result \<Rightarrow>
                    (case readStyleSeed of
                       Inl x \<Rightarrow> Inl x
                     | Inr styleSeed \<Rightarrow>
                         (case readUseEmojis of
                            Inl x \<Rightarrow> Inl x
                          | Inr useEmojis \<Rightarrow>
                              Inr (out\<lparr>generatedText :=
                                          normalizeBackblastEmojis result styleSeed useEmojis,
                                        outputLabel := js ''Generated by AI''\<rparr>))));
             caught =
               (case tried of
                  Inr out' \<Rightarrow> (Inr (), out')
                | Inl e \<Rightarrow>
                    (case readStyleSeed of
                       Inl x \<Rightarrow> (Inl x, out)
                     | Inr styleSeed \<Rightarrow>
                         (case readUseEmojis of
                            Inl x \<Rightarrow> (Inl x, out)
                          | Inr useEmojis \<Rightarrow>
                              (let formatted =
                                     formatBackblastNoAI_Standard activeAo form isFriday dir
                                       (fst draw') (snd draw')
                                       (bbStandardArgs form styleSeed
                                          (useEmojis \<and> \<not> forceNoEmojis activeAo));
                                   finalText = (if forceNoEmojis activeAo \<or> \<not> useEmojis
                                                then stripEmojis formatted else formatted)
                               in (Inr (), out\<lparr>generatedText := finalText,
                                                outputLabel := js ''Generated (No AI)''\<rparr>)))))
         in (fst caught, (snd caught)\<lparr>isLoading := False\<rparr>, s1)))"

section \<open>Preblast view: the No-AI formatter and the two handlers, standard layout\<close>

record pbForm =
  pbQName :: utext
  pbWorkoutDate :: utext
  pbWorkoutTime :: utext
  pbToBring :: "utext list"
  pbCustomToBring :: utext
  pbNormalizedExtraHashtags :: "utext list"
  pbMinimalEmojis :: bool

record preblastArgs =
  paQName :: utext
  paWorkoutDate :: utext
  paWorkoutTime :: utext
  paBringItems :: "utext list"
  paStyleSeed :: utext
  paUseEmojis :: bool
  paAo :: ao
  paExtraHashtags :: "utext list"

text \<open>\<open>formatStandardNoAI\<close>; 128205 is the pin and 128204 the pushpin emoji.\<close>

definition formatStandardNoAI :: "bool \<Rightarrow> preblastArgs \<Rightarrow> utext" where
  "formatStandardNoAI isFriday args =
     (let a = paAo args;
          hashtagLine = joinWith [32] (pbBuildHashtags (aoHashtags a) (aoIdent a) isFriday
                                         (paExtraHashtags args));
          whereLine = (if aoWhereName a \<noteq> [] \<and> aoWhereName a \<noteq> aoDisplayName a
                       then aoDisplayName a @ js '' '' @ [8212] @ js '' '' @ aoWhereName a
                       else aoDisplayName a);
          qEmoji = (if paUseEmojis args then pickFrom preblastEmojiQ (paStyleSeed args) ''q'' else []);
          dateEmoji = (if paUseEmojis args then pickFrom preblastEmojiDate (paStyleSeed args) ''date''
                       else []);
          bringEmoji = (if paUseEmojis args then pickFrom preblastEmojiBring (paStyleSeed args) ''bring''
                        else []);
          qPrefix = (if paUseEmojis args \<and> qEmoji \<noteq> [] then qEmoji @ [32] else []);
          datePrefix = (if paUseEmojis args \<and> dateEmoji \<noteq> [] then dateEmoji @ [32] else []);
          bringPrefix = (if paUseEmojis args \<and> bringEmoji \<noteq> [] then bringEmoji @ [32] else []);
          bringLine = (if paBringItems args \<noteq> []
                       then bringPrefix @ js ''Bring: '' @ joinWith (js '', '') (paBringItems args)
                       else []);
          addrSuffix = (if aoAddress a \<noteq> [] then js '' ('' @ aoAddress a @ js '')'' else []);
          ddTdBlock = buildDdTdBlock (paStyleSeed args);
          lines = [hashtagLine, [], clickLine ''OWN CALL TO ACTION MESSAGE'', [],
                   qPrefix @ js ''Q: '' @ orElse (stripAt (paQName args)) (js ''TBD''),
                   [],
                   (if paUseEmojis args then [128205, 32] else []) @ js ''AO: '' @ whereLine @ addrSuffix];
          lines = (if trim (aoMeetingPoint a) \<noteq> []
                   then lines @ [(if paUseEmojis args then [128204, 32] else []) @ js ''Meet: ''
                                   @ trim (aoMeetingPoint a)]
                   else lines);
          lines = lines @
                  [[],
                   datePrefix @ js ''Date/Time: '' @ paWorkoutDate args @ js '' (''
                     @ paWorkoutTime args @ js '')'',
                   ddTdBlock,
                   []];
          lines = (if bringLine \<noteq> [] then lines @ [bringLine] else lines)
      in joinWith [10] lines)"

definition preblastWhereName :: "ao \<Rightarrow> utext" where
  "preblastWhereName a =
     (if aoIdent a = js ''compass'' \<or> aoIdent a = js ''theshadows'' then aoLabel a
      else aoWhereName a)"

text \<open>\<open>buildBringItems\<close>: the trimmed, non-empty items, each once, in order of first
  occurrence.\<close>

definition buildBringItems :: "pbForm \<Rightarrow> utext list" where
  "buildBringItems form =
     (let items = pbToBring form;
          items = (if trim (pbCustomToBring form) \<noteq> [] then items @ [trim (pbCustomToBring form)]
                   else items)
      in dedupeBy (\<lambda>x. x) [] (map trim items))"

definition buildNoAiFormattedText :: "ao \<Rightarrow> pbForm \<Rightarrow> bool \<Rightarrow> utext \<Rightarrow> utext" where
  "buildNoAiFormattedText activeAo form isFriday styleSeed =
     (let items = buildBringItems form;
          useEmojis = preblastShouldUseEmojis styleSeed (forceNoEmojis activeAo) False
      in formatStandardNoAI isFriday
           \<lparr>paQName = orElse (stripAt (pbQName form)) [], paWorkoutDate = pbWorkoutDate form,
            paWorkoutTime = pbWorkoutTime form, paBringItems = items, paStyleSeed = styleSeed,
            paUseEmojis = useEmojis,
            paAo = activeAo\<lparr>aoDisplayName := aoLabel activeAo,
                            aoWhereName := preblastWhereName activeAo\<rparr>,
            paExtraHashtags = pbNormalizedExtraHashtags form\<rparr>)"

definition pbHandleFormatNoAI :: "ao \<Rightarrow> pbForm \<Rightarrow> bool \<Rightarrow> nat \<times> utext \<Rightarrow> viewOut \<Rightarrow> viewOut" where
  "pbHandleFormatNoAI activeAo form isFriday draw out =
     (if trim (pbQName form) = [] then out
      else
        (let formatted = buildNoAiFormattedText activeAo form isFriday
                           (buildStyleSeed (fst draw) (snd draw))
         in out\<lparr>generatedText := stripMarkdownImageLines formatted,
                outputLabel := js ''Generated (No AI)'', isLoading := False\<rparr>))"

text \<open>\<open>handleGenerateAI\<close> of the preblast view: one \<open>styleSeed\<close> is built before the
  \<open>try\<close> block and used in both branches.\<close>

definition pbHandleGenerateAI ::
  "env \<Rightarrow> bool \<Rightarrow> ao \<Rightarrow> pbForm \<Rightarrow> bool \<Rightarrow> nat \<times> utext \<Rightarrow> clock \<Rightarrow> viewOut \<Rightarrow>
     (jsThrow + unit) \<times> viewOut \<times> clock" where
  "pbHandleGenerateAI E apiKey activeAo form isFriday draw s out =
     (if forceNoAiAo activeAo
      then (Inr (), pbHandleFormatNoAI activeAo form isFriday draw out, s)
      else if trim (pbQName form) = [] then (Inr (), out, s)
      else
        (let out = out\<lparr>isLoading := True, generatedText := []\<rparr>;
             styleSeed = buildStyleSeed (fst draw) (snd draw);
             useEmojis = preblastShouldUseEmojis styleSeed (forceNoEmojis activeAo)
                           (pbMinimalEmojis form);
             (r, s1) = generatePreblast E apiKey (aoIdent activeAo \<noteq> []) s;
             out = (case r of
                      Inr raw \<Rightarrow>
                        out\<lparr>generatedText :=
                              normalizePreblastOutput (pbMinimalEmojis form) (forceNoEmojis activeAo)
                                useEmojis (aoAddress activeAo) styleSeed raw,
                            outputLabel := js ''Generated by AI''\<rparr>
                    | Inl e \<Rightarrow>
                        out\<lparr>generatedText :=
                              stripMarkdownImageLines
                                (buildNoAiFormattedText activeAo form isFriday styleSeed),
                            outputLabel := js ''Generated (No AI)''\<rparr>)
         in (Inr (), out\<lparr>isLoading := False\<rparr>, s1)))"

section \<open>The rules as the specification words them\<close>

text \<open>
  The classification rule of the specification: an error is transient when its status
  code is 429 or 503, or when its lower-cased message contains one of eight substrings.
  Containment is stated with \<open>sublist\<close>, independently of \<open>includesStr\<close>.
\<close>

definition transientNeedles :: "string list" where
  "transientNeedles =
     [''429'', ''503'', ''rate'', ''quota'', ''resource exhausted'', ''overload'',
      ''unavailable'', ''temporarily'']"

definition specTransient :: "int option \<Rightarrow> string \<Rightarrow> bool" where
  "specTransient st msg =
     (st = Some 429 \<or> st = Some 503 \<or>
      list_ex (\<lambda>n. sublist n (toLowerCase msg)) transientNeedles)"

text \<open>The four substrings the view's loop looks for.\<close>

definition viewNeedles :: "string list" where
  "viewNeedles = [''overload'', ''quota'', ''429'', ''503'']"

text \<open>
  The delay of the specification: \<open>min(BASE_DELAY * 1.6^attempt, 20000)\<close>, clamped to
  the remaining budget \<open>MAX_TOTAL_MS - elapsed\<close>.
\<close>

definition specDelay :: "rat \<Rightarrow> nat \<Rightarrow> nat \<Rightarrow> nat \<Rightarrow> rat" where
  "specDelay baseDelay maxTotalMs attempt elapsed =
     min (min (baseDelay * (8 / 5) ^ attempt) 20000) (of_nat maxTotalMs - of_nat elapsed)"


text \<open>The section an attendee belongs to by the grouping rule of the specification: the
  starsky flag first, then the highest of the tiers TD, DD, BD.\<close>

datatype paxSection = SecTD | SecDD | SecBD | SecStarsky

definition highestSection :: "paxAttendance \<Rightarrow> paxSection option" where
  "highestSection p =
     (if starsky p then Some SecStarsky
      else if td p then Some SecTD
      else if dd p then Some SecDD
      else if bd p then Some SecBD
      else None)"

text \<open>The cleaned name that the cohort total counts.\<close>

definition cleanedName :: "utext \<Rightarrow> utext" where
  "cleanedName n = toLowerCaseU (trim (stripAt n))"

section \<open>Auxiliary definitions for the proofs\<close>


text \<open>Concrete environments: a service that always answers 429 at once, and the clock at 0
  of a page on which an earlier action has created the SDK client.\<close>

definition env429 :: env where
  "env429 = \<lparr>callDur = (\<lambda>i. 0), callRes = (\<lambda>i. Inl (ErrObj (Some 429) None [] [])),
             sleepLate = (\<lambda>i. 0),
     importDur = 0, importRes = None\<rparr>"

definition clock0 :: clock where
  "clock0 = \<lparr>now = 0, calls = 0, sleeps = 0, schedAt = [], client = Loaded\<rparr>"

text \<open>An error that carries the status 500 and the response status 429, and a service
  that always rejects with it at once.\<close>

definition err500 :: thrown where
  "err500 = ErrObj (Some 500) (Some 429) ''bad request'' []"

definition env500 :: env where
  "env500 = \<lparr>callDur = (\<lambda>i. 0), callRes = (\<lambda>i. Inl err500), sleepLate = (\<lambda>i. 0),
     importDur = 0, importRes = None\<rparr>"

text \<open>A service that always rejects at once with \<open>new Error("invalid argument")\<close>.\<close>

definition envInvalid :: env where
  "envInvalid = \<lparr>callDur = (\<lambda>i. 0), callRes = (\<lambda>i. Inl (newError ''invalid argument'')),
                 sleepLate = (\<lambda>i. 0),
     importDur = 0, importRes = None\<rparr>"

text \<open>The clock after one external call that took no time.\<close>

definition clock1 :: clock where
  "clock1 = \<lparr>now = 0, calls = 1, sleeps = 0, schedAt = [], client = Loaded\<rparr>"

text \<open>A roster of three: one attendee with all three tier flags, one with the base tier
  only, and one with the starsky flag on top of tier flags.\<close>

definition paxHardwood :: paxAttendance where
  "paxHardwood = \<lparr>pid = js ''1'', name = js ''Hardwood'', dd = True, td = True,
                   bigfoot = False, starsky = False, bd = True\<rparr>"

definition paxDredd :: paxAttendance where
  "paxDredd = \<lparr>pid = js ''2'', name = js ''Dredd'', dd = False, td = False,
                bigfoot = False, starsky = False, bd = True\<rparr>"

definition paxMoses :: paxAttendance where
  "paxMoses = \<lparr>pid = js ''3'', name = js ''Moses'', dd = True, td = True,
                bigfoot = False, starsky = True, bd = True\<rparr>"

definition roster3 :: "paxAttendance list" where
  "roster3 = [paxDredd, paxMoses, paxHardwood]"

text \<open>Jurassic Park rows: the same name in the run group and, written differently, in
  the ruck group; a starsky row in the MPC group.\<close>

definition jpRow :: "string \<Rightarrow> jpPaxRunRuck" where
  "jpRow n = \<lparr>pid = js n, name = js n, dd = False, td = False, bigfoot = False,
              starsky = False, bd = True, lead = False\<rparr>"

definition jpStarskyRow :: "string \<Rightarrow> jpPaxMpc" where
  "jpStarskyRow n = \<lparr>pid = js n, name = js n, dd = False, td = False, bigfoot = False,
                     starsky = True\<rparr>"

text \<open>A style seed as \<open>buildStyleSeed\<close> produces them, and an answer of the service that
  labels the date line \<open>Date:\<close>.\<close>

definition seedA :: utext where
  "seedA = js ''1762150000000-k3j9x2''"

definition textDateDrift :: utext where
  "textDateDrift = js ''Hi\<newline>Date: Sat\<newline>Bye''"

text \<open>A service that answers \<open>Hello\<close> at once; the AO \<open>compass\<close> (not a forced No-AI
  location, not Jurassic Park); a filled backblast form; an empty view.\<close>

definition envHello :: env where
  "envHello = \<lparr>callDur = (\<lambda>i. 0), callRes = (\<lambda>i. Inr (Some (js ''Hello''))),
               sleepLate = (\<lambda>i. 0),
     importDur = 0, importRes = None\<rparr>"

definition aoCompass :: ao where
  "aoCompass = \<lparr>aoIdent = js ''compass'', aoShortName = js ''Compass'',
                 aoDisplayName = js ''Compass at Lost Creek'', aoWhereName = js ''Lost Creek'',
                 aoAddress = [], aoMeetingPoint = [], aoHashtags = [js ''#compass'']\<rparr>"

definition formA :: bbForm where
  "formA = \<lparr>bbQName = js ''Dredd'', bbLongDate = js ''Saturday, 11/1/2025'',
             bbWorkoutTime = js ''6:30 AM - 7:30 AM'', bbPaxAttendance = roster3,
             bbWarmup = [], bbWarmupDescription = [], bbTheThang = [],
             bbAnnouncements = [], bbTaps = [], bbMinimalEmojis = True\<rparr>"

definition out0 :: viewOut where
  "out0 = \<lparr>generatedText = [], outputLabel = [], isLoading = False\<rparr>"

definition outRejected :: viewOut where
  "outRejected = \<lparr>generatedText = generatingPlaceholder, outputLabel = [], isLoading = False\<rparr>"

text \<open>Two readings of the clock and the random number generator.\<close>

definition drawA :: "nat \<times> utext" where
  "drawA = (1762150000000, js ''k3j9x2abc'')"

definition drawB :: "nat \<times> utext" where
  "drawB = (1762150000000, js ''k3j9x2xyz'')"

definition drawC :: "nat \<times> utext" where
  "drawC = (1762150000555, js ''000001'')"

text \<open>The clock after the eight calls and seven waits of a run against \<open>env429\<close>.\<close>

definition clock429 :: clock where
  "clock429 = \<lparr>now = 60000, calls = 8, sleeps = 7,
                schedAt = [0, 2000, 5200, 10320, 18512, 31619, 51619], client = Loaded\<rparr>"

text \<open>A preblast form.\<close>

definition formP :: pbForm where
  "formP = \<lparr>pbQName = js ''Dredd'', pbWorkoutDate = js ''Saturday, 11/1/2025'',
             pbWorkoutTime = js ''6:30 AM - 7:30 AM'', pbToBring = [js ''Gloves''],
             pbCustomToBring = [], pbNormalizedExtraHashtags = [], pbMinimalEmojis = True\<rparr>"

text \<open>A service that answers at once with white space only.\<close>

definition envBlank :: env where
  "envBlank = \<lparr>callDur = (\<lambda>i. 0), callRes = (\<lambda>i. Inr (Some (js ''  ''))),
               sleepLate = (\<lambda>i. 0),
     importDur = 0, importRes = None\<rparr>"

text \<open>The text of the standard No-AI backblast for \<open>formA\<close> at \<open>aoCompass\<close> without
  emojis.\<close>

definition textNoAiA :: utext where
  "textNoAiA =
     js ''#compass #backblast\<newline>\<newline>'' @ clickLine ''MESSAGE'' @
     js ''\<newline>\<newline>AO: Compass\<newline>Date/Time: Saturday, 11/1/2025 (6:30 AM - 7:30 AM)\<newline>Q: Dredd\<newline>PAX: 2 Total\<newline>\<newline>@Hardwood [TD]\<newline>@Dredd\<newline>@Moses [Starsky]\<newline>\<newline>Disclaimer (Standard disclaimer)\<newline>Count O Rama: 2\<newline>\<newline>Warmup:\<newline>\<newline>\<newline>The Thang:\<newline>A glorious beatdown ensued.\<newline>\<newline>Announcements: None.\<newline>TAPS: None.''"




text \<open>The name Emile, written with a capital E acute (201) and with a small one (233),
  and the Greek word for street in capitals, which ends in a sigma.\<close>

definition nameEmileCapital :: utext where
  "nameEmileCapital = 201 # js ''mile''"

definition nameEmileSmall :: utext where
  "nameEmileSmall = 233 # js ''mile''"

definition jpRowU :: "utext \<Rightarrow> jpPaxRunRuck" where
  "jpRowU n = \<lparr>pid = n, name = n, dd = False, td = False, bigfoot = False,
               starsky = False, bd = True, lead = False\<rparr>"

definition wordOdos :: utext where
  "wordOdos = [927, 916, 927, 931]"



section \<open>Lower case and symbols on ASCII texts\<close>

lemma lowerIn_below:
  "list_all (\<lambda>(lo, hi, stride, target). c < lo) rs \<Longrightarrow> lowerIn rs c = c"
  by (induction rs) auto

lemma lowerCodePoint_ascii:
  assumes "c < 128"
  shows "lowerCodePoint c = [if 65 \<le> c \<and> c \<le> 90 then c + 32 else c]"
proof -
  have tl: "list_all (\<lambda>(lo, hi, stride, target). 128 \<le> lo) (tl lowerTable)"
    by (simp add: lowerTable_def)
  then have "list_all (\<lambda>(lo, hi, stride, target). c < lo) (tl lowerTable)"
    using assms by (auto simp: list_all_iff)
  then have r: "lowerIn (tl lowerTable) c = c" by (rule lowerIn_below)
  have hd: "lowerTable = (65, 90, 1, 97) # tl lowerTable"
    by (simp add: lowerTable_def)
  have "lowerIn lowerTable c = (if 65 \<le> c \<and> c \<le> 90 then c + 32 else c)"
    by (subst hd) (simp add: r)
  then show ?thesis using assms by (simp add: lowerCodePoint_def)
qed

lemma lowerFrom_ascii:
  "list_all (\<lambda>c. c < 128) t \<Longrightarrow>
     lowerFrom front t = map (\<lambda>c. if 65 \<le> c \<and> c \<le> 90 then c + 32 else c) t"
  by (induction t arbitrary: front) (simp_all add: lowerCodePoint_ascii)

lemma toLowerCaseU_ascii:
  "list_all (\<lambda>c. c < 128) t \<Longrightarrow>
     toLowerCaseU t = map (\<lambda>c. if 65 \<le> c \<and> c \<le> 90 then c + 32 else c) t"
  by (simp add: toLowerCaseU_def lowerFrom_ascii)

lemma inRanges_below: "list_all (\<lambda>(lo, hi). c < lo) rs \<Longrightarrow> \<not> inRanges rs c"
  by (induction rs) auto

lemma symbolOther_ascii:
  assumes "c < 166"
  shows "\<not> symbolOther c"
proof -
  have "list_all (\<lambda>(lo, hi). 166 \<le> lo) symbolOtherRanges"
    by (simp add: symbolOtherRanges_def)
  then have "list_all (\<lambda>(lo, hi). c < lo) symbolOtherRanges"
    using assms by (auto simp: list_all_iff)
  then show ?thesis unfolding symbolOther_def by (rule inRanges_below)
qed

lemma lower_examples:
  "toLowerCaseU nameEmileCapital = nameEmileSmall"
  "toLowerCaseU nameEmileSmall = nameEmileSmall"
  "toLowerCaseU wordOdos = [959, 948, 959, 962]"
  by (simp_all add: toLowerCaseU_def lowerCodePoint_def lowerTable_def finalSigma_def
        caseIgnorableRanges_def casedRanges_def nameEmileCapital_def nameEmileSmall_def
        wordOdos_def js_def split del: if_split)

section \<open>The retry budget\<close>








lemma externalCall_calls: "calls (snd (externalCall E s)) = Suc (calls s)"
  by (simp add: externalCall_def)



lemma externalCall_fst: "fst (externalCall E s) = callRes E (calls s)"
  by (simp add: externalCall_def)











lemma transient_limitError: "transient limitError"
  by code_simp






lemma isRetryable_429: "isRetryable (ErrObj (Some 429) None [] [])"
  by (simp add: isRetryable_def)


lemma floor_13107: "\<lfloor>65536 / 5 :: rat\<rfloor> = 13107"
  by (simp add: floor_eq_iff)

lemma getGenAiClient_loaded: "client s = Loaded \<Longrightarrow> getGenAiClient E s = (Inr (), s)"
  by (simp add: getGenAiClient_def)

lemma getGenAiClient_clock0: "getGenAiClient E clock0 = (Inr (), clock0)"
  by (simp add: getGenAiClient_def clock0_def)

lemma retryLoop_env429:
  "retryLoop env429 10 60000 0 0 clock0 =
     (Inl limitError, \<lparr>now = 60000, calls = 8, sleeps = 7,
        schedAt = [0, 2000, 5200, 10320, 18512, 31619, 51619], client = Loaded\<rparr>)"
  by (simp add: retryLoop.simps externalCall_def sleep_def env429_def clock0_def isRetryable_429
        serviceWaitMs_def serviceBackoff_def power_numeral_reduce floor_13107 Let_def)

lemma run429: "generateWithRetry env429 True True clock0 =
   (Inl limitError, \<lparr>now = 60000, calls = 8, sleeps = 7,
      schedAt = [0, 2000, 5200, 10320, 18512, 31619, 51619], client = Loaded\<rparr>)"
proof -
  have "now clock0 = 0" "getGenAiClient env429 clock0 = (Inr (), clock0)"
    by (simp_all add: clock0_def getGenAiClient_def)
  then show ?thesis
    using retryLoop_env429 transient_limitError
    by (simp add: generateWithRetry_def viewLoop.simps [of _ _ _ _ _ _ "Suc 0"] generateBackblast_def
          retryGeminiCall_def Let_def)
qed





lemma err500_classes: "\<not> isRetryable err500" "transient err500"
  by code_simp+







section \<open>Error classification and retry delays at the two sites\<close>

lemma startsWith_prefix: "startsWith s n \<longleftrightarrow> prefix n s"
  by (induction s n rule: startsWith.induct) auto

lemma includesStr_sublist: "includesStr s n \<longleftrightarrow> sublist n s"
proof (induction s)
  case Nil
  then show ?case by simp
next
  case (Cons c cs)
  then show ?case by (simp add: startsWith_prefix sublist_Cons_right)
qed

lemma isRetryable_spec:
  "isRetryable err \<longleftrightarrow> specTransient (fst (normalizeErr err)) (snd (normalizeErr err))"
  by (cases "normalizeErr err")
     (simp add: isRetryable_def specTransient_def transientNeedles_def includesStr_sublist
        orElse_def Let_def)

lemma transient_view:
  "transient e \<longleftrightarrow>
     (list_ex (\<lambda>n. sublist n (toLowerCase (viewMessage e))) viewNeedles \<or>
      viewStatus e = Some 429 \<or> viewStatus e = Some 503 \<or>
      viewResponseStatus e = Some 429 \<or> viewResponseStatus e = Some 503)"
  by (simp add: transient_def viewNeedles_def includesStr_sublist orElse_def Let_def)

lemma sleep_calls: "calls (sleep E w s) = calls s"
  by (simp add: sleep_def)

lemma retryLoop_calls_mono:
  "calls s \<le> calls (snd (retryLoop E maxRetries maxTotalMs startedAt attempt s))"
proof (induction E maxRetries maxTotalMs startedAt attempt s rule: retryLoop.induct)
  case (1 E maxRetries maxTotalMs startedAt attempt s)
  obtain r s1 where ec: "externalCall E s = (r, s1)" by (cases "externalCall E s")
  then have c1: "calls s1 = Suc (calls s)" using externalCall_calls [of E s] by simp
  show ?case
  proof (cases "attempt < maxRetries")
    case False
    then show ?thesis by (simp add: retryLoop.simps [of E maxRetries maxTotalMs startedAt attempt s])
  next
    case True
    show ?thesis
    proof (cases r)
      case (Inr v)
      then show ?thesis using True ec c1
        by (simp add: retryLoop.simps [of E maxRetries maxTotalMs startedAt attempt s])
    next
      case (Inl err)
      show ?thesis
      proof (cases "isRetryable err \<and> \<not> maxTotalMs \<le> now s1 - startedAt")
        case False
        then show ?thesis using True ec c1 Inl
          by (auto simp add: retryLoop.simps [of E maxRetries maxTotalMs startedAt attempt s] Let_def)
      next
        case c: True
        have "calls (sleep E (serviceWaitMs maxTotalMs attempt (now s1 - startedAt)) s1)
                \<le> calls (snd (retryLoop E maxRetries maxTotalMs startedAt (Suc attempt)
                     (sleep E (serviceWaitMs maxTotalMs attempt (now s1 - startedAt)) s1)))"
          using "1.IH" [of r s1 err "now s1 - startedAt"] True c ec Inl by simp
        then show ?thesis using True ec c1 Inl c
          by (simp add: retryLoop.simps [of E maxRetries maxTotalMs startedAt attempt s] Let_def
                sleep_calls)
      qed
    qed
  qed
qed


lemma retryLoop_permanent:
  assumes "externalCall E s = (Inl err, s1)" "attempt < maxRetries" "\<not> isRetryable err"
  shows "retryLoop E maxRetries maxTotalMs startedAt attempt s = (Inl err, s1)"
  using assms by (simp add: retryLoop.simps [of E maxRetries maxTotalMs startedAt attempt s])

lemma retryLoop_retry:
  assumes "externalCall E s = (Inl err, s1)" "attempt < maxRetries" "isRetryable err"
    "now s1 - startedAt < maxTotalMs"
  shows "retryLoop E maxRetries maxTotalMs startedAt attempt s =
           retryLoop E maxRetries maxTotalMs startedAt (Suc attempt)
             (sleep E (serviceWaitMs maxTotalMs attempt (now s1 - startedAt)) s1)"
  using assms
  by (simp add: retryLoop.simps [of E maxRetries maxTotalMs startedAt attempt s] Let_def)

lemma retryLoop_retry_calls:
  assumes "externalCall E s = (Inl err, s1)" "Suc attempt < maxRetries" "isRetryable err"
    "now s1 - startedAt < maxTotalMs"
  shows "calls s + 2 \<le> calls (snd (retryLoop E maxRetries maxTotalMs startedAt attempt s))"
proof -
  define s2 where "s2 = sleep E (serviceWaitMs maxTotalMs attempt (now s1 - startedAt)) s1"
  have c2: "calls s2 = Suc (calls s)"
    using assms(1) externalCall_calls [of E s] by (simp add: s2_def sleep_calls)
  have a: "attempt < maxRetries" using assms(2) by simp
  have eq: "retryLoop E maxRetries maxTotalMs startedAt attempt s =
              retryLoop E maxRetries maxTotalMs startedAt (Suc attempt) s2"
    unfolding s2_def by (rule retryLoop_retry [OF assms(1) a assms(3) assms(4)])
  obtain r s3 where ec: "externalCall E s2 = (r, s3)" by (cases "externalCall E s2")
  then have c3: "calls s3 = Suc (calls s2)" using externalCall_calls [of E s2] by simp
  have "Suc (calls s2) \<le> calls (snd (retryLoop E maxRetries maxTotalMs startedAt (Suc attempt) s2))"
  proof (cases r)
    case (Inr v)
    then show ?thesis using ec c3 assms(2)
      by (simp add: retryLoop.simps [of E maxRetries maxTotalMs startedAt "Suc attempt" s2])
  next
    case (Inl err2)
    show ?thesis
    proof (cases "isRetryable err2 \<and> \<not> maxTotalMs \<le> now s3 - startedAt")
      case False
      then show ?thesis using ec c3 assms(2) Inl
        by (auto simp add: retryLoop.simps [of E maxRetries maxTotalMs startedAt "Suc attempt" s2]
              Let_def)
    next
      case True
      have "calls (sleep E (serviceWaitMs maxTotalMs (Suc attempt) (now s3 - startedAt)) s3)
              \<le> calls (snd (retryLoop E maxRetries maxTotalMs startedAt (Suc (Suc attempt))
                    (sleep E (serviceWaitMs maxTotalMs (Suc attempt) (now s3 - startedAt)) s3)))"
        by (rule retryLoop_calls_mono)
      then show ?thesis using ec c3 assms(2) Inl True
        by (simp add: retryLoop.simps [of E maxRetries maxTotalMs startedAt "Suc attempt" s2]
              Let_def sleep_calls)
    qed
  qed
  then show ?thesis unfolding eq using c2 by simp
qed

lemma viewLoop_permanent:
  assumes "generateBackblast E k a s = (Inl e, s1)" "attempt \<le> maxRetries" "\<not> transient e"
  shows "viewLoop E k a maxRetries maxTotalMs startedAt attempt s = (Inl e, s1)"
  using assms by (simp add: viewLoop.simps [of E k a maxRetries maxTotalMs startedAt attempt s])

lemma viewLoop_retry:
  assumes "generateBackblast E k a s = (Inl e, s1)" "attempt < maxRetries" "transient e"
    "now s1 - startedAt < maxTotalMs"
  shows "viewLoop E k a maxRetries maxTotalMs startedAt attempt s =
           viewLoop E k a maxRetries maxTotalMs startedAt (Suc attempt)
             (sleep E (viewWaitMs maxTotalMs attempt (now s1 - startedAt)) s1)"
  using assms
  by (simp add: viewLoop.simps [of E k a maxRetries maxTotalMs startedAt attempt s] Let_def)

text \<open>
  Claim C3, as amended. The two retry sites classify errors differently. The service loop
  \<open>retryGeminiCall\<close> follows the rule of the specification on the normalised status and
  message: it rethrows every other error after the one call, and it makes a further call
  for a transient error while attempts and time remain. The view loop \<open>generateWithRetry\<close>
  calls an error transient when its message contains one of the four substrings
  \<open>overload\<close>, \<open>quota\<close>, \<open>429\<close>, \<open>503\<close>, or when its status or its response status is 429 or
  503; it rethrows every other error at once and otherwise waits and calls
  \<open>generateBackblast\<close> again while attempts and time remain.
\<close>

theorem classification_by_site:
  "(isRetryable err \<longleftrightarrow> specTransient (fst (normalizeErr err)) (snd (normalizeErr err))) \<and>
   (externalCall E s = (Inl err, s1) \<and> attempt < maxRetries \<and> \<not> isRetryable err \<longrightarrow>
      retryLoop E maxRetries maxTotalMs startedAt attempt s = (Inl err, s1)) \<and>
   (externalCall E s = (Inl err, s1) \<and> Suc attempt < maxRetries \<and> isRetryable err \<and>
      now s1 - startedAt < maxTotalMs \<longrightarrow>
      calls s + 2 \<le> calls (snd (retryLoop E maxRetries maxTotalMs startedAt attempt s))) \<and>
   (transient e \<longleftrightarrow>
      list_ex (\<lambda>n. sublist n (toLowerCase (viewMessage e))) viewNeedles \<or>
      viewStatus e = Some 429 \<or> viewStatus e = Some 503 \<or>
      viewResponseStatus e = Some 429 \<or> viewResponseStatus e = Some 503) \<and>
   (generateBackblast E k a s = (Inl e, s2) \<and> attempt \<le> maxRetries \<and> \<not> transient e \<longrightarrow>
      viewLoop E k a maxRetries maxTotalMs startedAt attempt s = (Inl e, s2)) \<and>
   (generateBackblast E k a s = (Inl e, s2) \<and> attempt < maxRetries \<and> transient e \<and>
      now s2 - startedAt < maxTotalMs \<longrightarrow>
      viewLoop E k a maxRetries maxTotalMs startedAt attempt s =
        viewLoop E k a maxRetries maxTotalMs startedAt (Suc attempt)
          (sleep E (viewWaitMs maxTotalMs attempt (now s2 - startedAt)) s2))"
  using isRetryable_spec [of err] transient_view [of e]
    retryLoop_permanent [of E s err s1 attempt maxRetries maxTotalMs startedAt]
    retryLoop_retry_calls [of E s err s1 attempt maxRetries startedAt maxTotalMs]
    viewLoop_permanent [of E k a s e s2 attempt maxRetries maxTotalMs startedAt]
    viewLoop_retry [of E k a s e s2 attempt maxRetries startedAt maxTotalMs]
  by blast


lemma invalid_permanent:
  "\<not> isRetryable (newError ''invalid argument'')" "\<not> transient (newError ''invalid argument'')"
  by code_simp+

lemma externalCall_concrete:
  "externalCall envInvalid clock0 = (Inl (newError ''invalid argument''), clock1)"
  "externalCall env429 clock0 = (Inl (ErrObj (Some 429) None [] []), clock1)"
  "externalCall env500 clock0 = (Inl err500, clock1)"
  by (simp_all add: externalCall_def envInvalid_def env429_def env500_def clock0_def clock1_def)

lemma generateBackblast_concrete:
  "generateBackblast envInvalid True True clock0 = (Inl (newError ''invalid argument''), clock1)"
  "generateBackblast env500 True True clock0 = (Inl err500, clock1)"
  using retryLoop_permanent [OF externalCall_concrete(1) _ invalid_permanent(1), of 0 10 60000 0]
    retryLoop_permanent [OF externalCall_concrete(3) _ err500_classes(1), of 0 10 60000 0]
  by (simp_all add: generateBackblast_def retryGeminiCall_def getGenAiClient_def clock0_def)

theorem classification_by_site_witness:
  "externalCall envInvalid clock0 = (Inl (newError ''invalid argument''), clock1) \<and>
   \<not> isRetryable (newError ''invalid argument'') \<and>
   retryLoop envInvalid 10 60000 0 0 clock0 = (Inl (newError ''invalid argument''), clock1) \<and>
   externalCall env429 clock0 = (Inl (ErrObj (Some 429) None [] []), clock1) \<and>
   isRetryable (ErrObj (Some 429) None [] []) \<and>
   calls clock0 + 2 \<le> calls (snd (retryLoop env429 10 60000 0 0 clock0)) \<and>
   generateBackblast envInvalid True True clock0 = (Inl (newError ''invalid argument''), clock1) \<and>
   \<not> transient (newError ''invalid argument'') \<and>
   viewLoop envInvalid True True 10 60000 0 1 clock0 = (Inl (newError ''invalid argument''), clock1) \<and>
   generateBackblast env500 True True clock0 = (Inl err500, clock1) \<and>
   transient err500 \<and>
   viewLoop env500 True True 10 60000 0 1 clock0 =
     viewLoop env500 True True 10 60000 0 2 (sleep env500 (viewWaitMs 60000 1 0) clock1)"
proof -
  have n1: "now clock1 - 0 < (60000::nat)" by (simp add: clock1_def)
  have a: "(0::nat) < 10" "Suc 0 < (10::nat)" "(1::nat) \<le> 10" "(1::nat) < 10" by simp_all
  note w1 = classification_by_site [where err = "newError ''invalid argument''"
      and e = "newError ''invalid argument''" and E = envInvalid and s = clock0 and ?s1.0 = clock1
      and ?s2.0 = clock1 and attempt = 0 and maxRetries = 10 and maxTotalMs = 60000
      and startedAt = 0 and k = True and a = True]
  note w2 = classification_by_site [where err = "newError ''invalid argument''"
      and e = "newError ''invalid argument''" and E = envInvalid and s = clock0 and ?s1.0 = clock1
      and ?s2.0 = clock1 and attempt = 1 and maxRetries = 10 and maxTotalMs = 60000
      and startedAt = 0 and k = True and a = True]
  note w3 = classification_by_site [where err = "ErrObj (Some 429) None [] []"
      and e = err500 and E = env429 and s = clock0 and ?s1.0 = clock1
      and ?s2.0 = clock1 and attempt = 0 and maxRetries = 10 and maxTotalMs = 60000
      and startedAt = 0 and k = True and a = True]
  note w4 = classification_by_site [where err = err500
      and e = err500 and E = env500 and s = clock0 and ?s1.0 = clock1
      and ?s2.0 = clock1 and attempt = 1 and maxRetries = 10 and maxTotalMs = 60000
      and startedAt = 0 and k = True and a = True]
  have c1: "retryLoop envInvalid 10 60000 0 0 clock0 = (Inl (newError ''invalid argument''), clock1)"
    using w1 externalCall_concrete(1) invalid_permanent(1) a by blast
  have c2: "calls clock0 + 2 \<le> calls (snd (retryLoop env429 10 60000 0 0 clock0))"
    using w3 externalCall_concrete(2) isRetryable_429 n1 a by blast
  have c3: "viewLoop envInvalid True True 10 60000 0 1 clock0
              = (Inl (newError ''invalid argument''), clock1)"
    using w2 generateBackblast_concrete(1) invalid_permanent(2) a by blast
  have c4: "viewLoop env500 True True 10 60000 0 1 clock0 =
     viewLoop env500 True True 10 60000 0 (Suc 1) (sleep env500 (viewWaitMs 60000 1 (now clock1 - 0)) clock1)"
    using w4 generateBackblast_concrete(2) err500_classes(2) n1 a by blast
  have n0: "now clock1 - 0 = 0" "Suc 1 = 2" by (simp_all add: clock1_def)
  show ?thesis
    using c1 c2 c3 c4 externalCall_concrete generateBackblast_concrete invalid_permanent
      err500_classes isRetryable_429
    unfolding n0 by blast
qed


lemma generateBackblast_env500:
  assumes "client s = Loaded"
  shows "generateBackblast env500 True True s = (Inl err500, s\<lparr>calls := Suc (calls s)\<rparr>)"
proof -
  have "externalCall env500 s = (Inl err500, s\<lparr>calls := Suc (calls s)\<rparr>)"
    by (simp add: externalCall_def env500_def)
  then show ?thesis
    using retryLoop_permanent [OF _ _ err500_classes(1), of env500 s _ 0 10 60000 "now s"]
      getGenAiClient_loaded [OF assms, of env500]
    by (simp add: generateBackblast_def retryGeminiCall_def)
qed

lemma run500:
  "generateWithRetry env500 True True clock0 =
     (Inl err500, \<lparr>now = 60000, calls = 7, sleeps = 6,
        schedAt = [0, 2000, 6000, 14000, 30000, 50000], client = Loaded\<rparr>)"
proof -
  have sl: "sleepLate env500 = (\<lambda>i. 0)" by (simp add: env500_def)
  show ?thesis
    by (simp add: generateWithRetry_def viewLoop.simps generateBackblast_env500 err500_classes
          viewWaitMs_def viewDelay_def sleep_def sl clock0_def Let_def)
qed

theorem classification_counterexample:
  "specTransient None ''rate limit exceeded'' \<and>
   isRetryable (newError ''rate limit exceeded'') \<and>
   \<not> transient (newError ''rate limit exceeded'') \<and>
   \<not> specTransient (fst (normalizeErr err500)) (snd (normalizeErr err500)) \<and>
   \<not> isRetryable err500 \<and>
   transient err500 \<and>
   calls (snd (generateWithRetry env500 True True clock0)) = 7"
proof -
  have a: "isRetryable (newError ''rate limit exceeded'')"
    "\<not> transient (newError ''rate limit exceeded'')"
    by code_simp+
  have b: "specTransient None ''rate limit exceeded''"
    using a(1) isRetryable_spec [of "newError ''rate limit exceeded''"]
    by (simp add: newError_def orElse_def)
  have c: "\<not> specTransient (fst (normalizeErr err500)) (snd (normalizeErr err500))"
    using err500_classes(1) isRetryable_spec [of err500] by simp
  show ?thesis using a b c err500_classes run500 by simp
qed

lemma serviceWaitMs_spec: "serviceWaitMs maxTotalMs attempt elapsed = specDelay 2000 maxTotalMs attempt elapsed"
  by (simp add: serviceWaitMs_def serviceBackoff_def specDelay_def Let_def)

text \<open>
  Claim C5, as amended. Before the next attempt the service loop waits
  \<open>min(2000 * 1.6^attempt, 20000)\<close> clamped to the remaining budget, with \<open>attempt\<close>
  counted from 0: the formula of the specification with a base delay of 2000 ms. The view
  loop waits \<open>min(1000 * 2^attempt, 20000)\<close> clamped to the remaining budget, with
  \<open>attempt\<close> counted from 1.
\<close>

theorem retry_delay_by_site:
  "(externalCall E s = (Inl err, s1) \<and> attempt < maxRetries \<and> isRetryable err \<and>
      now s1 - startedAt < maxTotalMs \<longrightarrow>
      retryLoop E maxRetries maxTotalMs startedAt attempt s =
        retryLoop E maxRetries maxTotalMs startedAt (Suc attempt)
          (sleep E (min (min (2000 * (8 / 5) ^ attempt) 20000)
                        (of_nat maxTotalMs - of_nat (now s1 - startedAt))) s1)) \<and>
   serviceWaitMs maxTotalMs attempt elapsed = specDelay 2000 maxTotalMs attempt elapsed \<and>
   (generateBackblast E k a s = (Inl e, s2) \<and> attempt < maxRetries \<and> transient e \<and>
      now s2 - startedAt < maxTotalMs \<longrightarrow>
      viewLoop E k a maxRetries maxTotalMs startedAt attempt s =
        viewLoop E k a maxRetries maxTotalMs startedAt (Suc attempt)
          (sleep E (min (min (1000 * 2 ^ attempt) 20000)
                        (of_nat maxTotalMs - of_nat (now s2 - startedAt))) s2))"
  using retryLoop_retry [of E s err s1 attempt maxRetries startedAt maxTotalMs]
    viewLoop_retry [of E k a s e s2 attempt maxRetries startedAt maxTotalMs]
    serviceWaitMs_spec [of maxTotalMs attempt elapsed]
  by (simp add: serviceWaitMs_def serviceBackoff_def viewWaitMs_def viewDelay_def Let_def)

theorem retry_delay_by_site_witness:
  "externalCall env429 clock0 = (Inl (ErrObj (Some 429) None [] []), clock1) \<and>
   isRetryable (ErrObj (Some 429) None [] []) \<and>
   retryLoop env429 10 60000 0 0 clock0 =
     retryLoop env429 10 60000 0 1 (sleep env429 2000 clock1) \<and>
   generateBackblast env500 True True clock0 = (Inl err500, clock1) \<and>
   transient err500 \<and>
   viewLoop env500 True True 10 60000 0 1 clock0 =
     viewLoop env500 True True 10 60000 0 2 (sleep env500 2000 clock1)"
proof -
  have n1: "now clock1 - 0 < (60000::nat)" "now clock1 - 0 = 0" by (simp_all add: clock1_def)
  have a: "(0::nat) < 10" "(1::nat) < 10" by simp_all
  note w1 = retry_delay_by_site [where err = "ErrObj (Some 429) None [] []"
      and e = err500 and E = env429 and s = clock0 and ?s1.0 = clock1
      and ?s2.0 = clock1 and attempt = 0 and maxRetries = 10 and maxTotalMs = 60000
      and startedAt = 0 and k = True and a = True and elapsed = 0]
  note w2 = retry_delay_by_site [where err = err500
      and e = err500 and E = env500 and s = clock0 and ?s1.0 = clock1
      and ?s2.0 = clock1 and attempt = 1 and maxRetries = 10 and maxTotalMs = 60000
      and startedAt = 0 and k = True and a = True and elapsed = 0]
  have c1: "retryLoop env429 10 60000 0 0 clock0 =
     retryLoop env429 10 60000 0 1 (sleep env429 2000 clock1)"
    using w1 externalCall_concrete(2) isRetryable_429 n1 a by simp
  have c2: "viewLoop env500 True True 10 60000 0 1 clock0 =
     viewLoop env500 True True 10 60000 0 2 (sleep env500 2000 clock1)"
    using w2 generateBackblast_concrete(2) err500_classes(2) n1 a by (simp add: numeral_2_eq_2)
  show ?thesis
    using c1 c2 externalCall_concrete(2) generateBackblast_concrete(2) err500_classes(2)
      isRetryable_429 by blast
qed

theorem retry_delay_counterexample:
  "viewWaitMs 60000 1 0 = 2000 \<and> specDelay 1000 60000 1 0 = 1600 \<and>
   viewWaitMs 60000 2 0 = 4000 \<and> specDelay 1250 60000 1 0 = 2000 \<and>
   specDelay 1250 60000 2 0 = 3200 \<and>
   schedAt (snd (generateWithRetry env500 True True clock0))
     = [0, 2000, 6000, 14000, 30000, 50000]"
  using run500
  by (simp add: viewWaitMs_def viewDelay_def specDelay_def Let_def power2_eq_square)

section \<open>Roster sections and totals\<close>

lemma sel_mem:
  "p \<in> set (tdSel pax) \<longleftrightarrow> p \<in> set pax \<and> highestSection p = Some SecTD"
  "p \<in> set (ddSel pax) \<longleftrightarrow> p \<in> set pax \<and> highestSection p = Some SecDD"
  "p \<in> set (bdSel pax) \<longleftrightarrow> p \<in> set pax \<and> highestSection p = Some SecBD"
  "p \<in> set (starskySel pax) \<longleftrightarrow> p \<in> set pax \<and> highestSection p = Some SecStarsky"
  by (auto simp: tdSel_def ddSel_def bdSel_def starskySel_def highestSection_def)

lemma sections_distinct:
  assumes "distinct (map f pax)"
  shows "distinct (map f (tdSel pax @ ddSel pax @ bdSel pax @ starskySel pax))"
proof -
  have d: "\<And>P. distinct (map f (filter P pax))" using assms by (rule distinct_map_filter)
  have inj: "inj_on f (set pax)" using assms by (simp add: distinct_map)
  have eq: "\<And>x y. x \<in> set pax \<Longrightarrow> y \<in> set pax \<Longrightarrow> f x = f y \<Longrightarrow> x = y"
    using inj by (auto dest: inj_onD)
  show ?thesis
    unfolding tdSel_def ddSel_def bdSel_def starskySel_def
    by (simp add: d image_Un Int_Un_distrib Int_Un_distrib2) (auto dest: eq)
qed

lemma lines_structure:
  "formatPaxSectionStandardLines dir pax =
     map (\<lambda>p. formatPaxNameWithExtras dir p @ js '' [TD]'') (tdSel pax) @
     map (\<lambda>p. formatPaxNameWithExtras dir p @ js '' [DD]'') (ddSel pax) @
     map (formatPaxNameWithExtras dir) (bdSel pax) @
     map (\<lambda>p. addAt dir (name p) @ js '' [Starsky]'') (starskySel pax)"
  by (simp add: formatPaxSectionStandardLines_def Let_def comp_def)

lemma service_lines_structure:
  "servicePaxLines pax =
     map (\<lambda>p. serviceFormatPaxNameWithExtras p @ js '' [TD]'') (tdSel pax) @
     map (\<lambda>p. serviceFormatPaxNameWithExtras p @ js '' [DD]'') (ddSel pax) @
     map serviceFormatPaxNameWithExtras (bdSel pax) @
     map (\<lambda>p. withAt (name p) @ js '' (Starsky)'') (starskySel pax)"
  by (simp add: servicePaxLines_def Let_def comp_def)


text \<open>
  Claim C8. In the standard roster rendering (the view's \<open>formatPaxSectionStandard\<close> and
  the roster block of the service's \<open>generateBackblast\<close>) the lines are, in this order,
  the TD, DD, BD and starsky sections; an attendee of the roster is in the TD, DD or BD
  section exactly when that is the highest tier flag set and the starsky flag is not set,
  and in the starsky section exactly when the starsky flag is set, whatever the tier
  flags are. So nobody is in two sections: whatever identifies the attendees of a roster
  uniquely (the id, or the name when no two attendees share one) occurs at most once over
  the four sections together.
\<close>

theorem tier_sections_exclusive:
  "(p \<in> set (tdSel pax) \<longleftrightarrow> p \<in> set pax \<and> highestSection p = Some SecTD) \<and>
   (p \<in> set (ddSel pax) \<longleftrightarrow> p \<in> set pax \<and> highestSection p = Some SecDD) \<and>
   (p \<in> set (bdSel pax) \<longleftrightarrow> p \<in> set pax \<and> highestSection p = Some SecBD) \<and>
   (p \<in> set (starskySel pax) \<longleftrightarrow> p \<in> set pax \<and> highestSection p = Some SecStarsky) \<and>
   (distinct (map f pax) \<longrightarrow>
      distinct (map f (tdSel pax @ ddSel pax @ bdSel pax @ starskySel pax))) \<and>
   formatPaxSectionStandardLines dir pax =
     map (\<lambda>p. formatPaxNameWithExtras dir p @ js '' [TD]'') (tdSel pax) @
     map (\<lambda>p. formatPaxNameWithExtras dir p @ js '' [DD]'') (ddSel pax) @
     map (formatPaxNameWithExtras dir) (bdSel pax) @
     map (\<lambda>p. addAt dir (name p) @ js '' [Starsky]'') (starskySel pax) \<and>
   servicePaxLines pax =
     map (\<lambda>p. serviceFormatPaxNameWithExtras p @ js '' [TD]'') (tdSel pax) @
     map (\<lambda>p. serviceFormatPaxNameWithExtras p @ js '' [DD]'') (ddSel pax) @
     map serviceFormatPaxNameWithExtras (bdSel pax) @
     map (\<lambda>p. withAt (name p) @ js '' (Starsky)'') (starskySel pax)"
  using sel_mem [of p pax] sections_distinct [of f pax]
  by (simp only: lines_structure [of dir pax] service_lines_structure [of pax] simp_thms) blast

lemma roster3_sections:
  "tdSel roster3 = [paxHardwood]" "ddSel roster3 = []" "bdSel roster3 = [paxDredd]"
  "starskySel roster3 = [paxMoses]"
  by (simp_all add: tdSel_def ddSel_def bdSel_def starskySel_def roster3_def paxHardwood_def
        paxDredd_def paxMoses_def)

lemma roster3_names: "distinct (map name roster3)"
  by (simp add: roster3_def paxHardwood_def paxDredd_def paxMoses_def js_def)

lemma roster3_lines:
  "formatPaxSectionStandardLines Map.empty roster3 =
     [js ''@Hardwood [TD]'', js ''@Dredd'', js ''@Moses [Starsky]'']"
  by (simp add: lines_structure roster3_sections formatPaxNameWithExtras_def addAt_def
        stripAt_def trim_def isSpace_def getBandNameForF3Name_def orElse_def paxHardwood_def
        paxDredd_def paxMoses_def js_def Let_def split del: if_split)

theorem tier_sections_exclusive_witness:
  "distinct (map name roster3) \<and>
   highestSection paxHardwood = Some SecTD \<and>
   tdSel roster3 = [paxHardwood] \<and> ddSel roster3 = [] \<and> bdSel roster3 = [paxDredd] \<and>
   starskySel roster3 = [paxMoses] \<and>
   distinct (map name (tdSel roster3 @ ddSel roster3 @ bdSel roster3 @ starskySel roster3)) \<and>
   formatPaxSectionStandardLines Map.empty roster3 =
     [js ''@Hardwood [TD]'', js ''@Dredd'', js ''@Moses [Starsky]'']"
proof -
  note t = tier_sections_exclusive [where p = paxHardwood and pax = roster3 and f = name
      and dir = Map.empty]
  have h: "highestSection paxHardwood = Some SecTD"
    using t roster3_sections(1) by simp
  have d: "distinct (map name (tdSel roster3 @ ddSel roster3 @ bdSel roster3 @ starskySel roster3))"
    using t roster3_names by blast
  show ?thesis
    using h d roster3_names roster3_sections roster3_lines by simp
qed

lemma trim_Nil_iff: "trim t = [] \<longleftrightarrow> (\<forall>x \<in> set t. isSpace x)"
proof -
  define d where "d = dropWhile isSpace t"
  have a: "trim t = [] \<longleftrightarrow> (\<forall>x \<in> set d. isSpace x)"
    by (simp add: trim_def d_def dropWhile_eq_Nil_conv)
  have b: "d = [] \<longleftrightarrow> (\<forall>x \<in> set t. isSpace x)"
    by (simp add: d_def dropWhile_eq_Nil_conv)
  have c: "d \<noteq> [] \<Longrightarrow> \<not> isSpace (hd d)"
    unfolding d_def by (rule hd_dropWhile)
  have "(\<forall>x \<in> set d. isSpace x) \<longleftrightarrow> d = []"
  proof
    assume all: "\<forall>x \<in> set d. isSpace x"
    show "d = []"
    proof (rule ccontr)
      assume ne: "d \<noteq> []"
      then have "hd d \<in> set d" by simp
      with all c [OF ne] show False by blast
    qed
  qed simp
  with a b show ?thesis by simp
qed

lemma last_dropWhile_ne: "dropWhile P xs \<noteq> [] \<Longrightarrow> last (dropWhile P xs) = last xs"
  by (induction xs) (auto split: if_splits)

lemma trim_last: "trim t \<noteq> [] \<Longrightarrow> \<not> isSpace (last (trim t))"
proof -
  assume ne: "trim t \<noteq> []"
  define r where "r = dropWhile isSpace (rev (dropWhile isSpace t))"
  have t: "trim t = rev r" by (simp add: trim_def r_def)
  with ne have rne: "r \<noteq> []" by simp
  then have "\<not> isSpace (hd r)" unfolding r_def by (rule hd_dropWhile)
  moreover have "last (rev r) = hd r" using rne by (simp add: last_rev)
  ultimately show ?thesis using t by simp
qed

lemma trim_stripAt_Nil_iff: "trim (stripAt n) = [] \<longleftrightarrow> stripAt n = []"
proof
  assume "stripAt n = []"
  then show "trim (stripAt n) = []" by (simp add: trim_def)
next
  assume tn: "trim (stripAt n) = []"
  show "stripAt n = []"
  proof (rule ccontr)
    assume ne: "stripAt n \<noteq> []"
    then have tne: "trim n \<noteq> []" by (auto simp: stripAt_def)
    have "last (stripAt n) = last (trim n)"
      using ne unfolding stripAt_def by (rule last_dropWhile_ne)
    then have "\<not> isSpace (last (stripAt n))" using trim_last [OF tne] by simp
    moreover have "last (stripAt n) \<in> set (stripAt n)" using ne by simp
    ultimately show False using tn trim_Nil_iff [of "stripAt n"] by blast
  qed
qed

lemma countStandardTotal_valid:
  "countStandardTotal pax = standardTotalPax (validStandardPax pax)"
proof -
  have "filter (\<lambda>p. \<not> starsky p)
          (filter (\<lambda>p. trim (name p) \<noteq> []) (map (\<lambda>p. p\<lparr>name := stripAt (name p)\<rparr>) pax))
        = map (\<lambda>p. p\<lparr>name := stripAt (name p)\<rparr>)
            (filter (\<lambda>p. stripAt (name p) \<noteq> [] \<and> \<not> starsky p) pax)"
    by (induction pax) (auto simp: trim_stripAt_Nil_iff)
  then show ?thesis
    by (simp add: countStandardTotal_def standardTotalPax_def validStandardPax_def)
qed

lemma addName_set:
  "distinct acc \<Longrightarrow>
     distinct (addName acc n) \<and> set (addName acc n) = set acc \<union> ({cleanedName n} - {[]})"
  by (auto simp: addName_def cleanedName_def Let_def)

lemma foldl_addName:
  "distinct acc \<Longrightarrow>
     distinct (foldl addName acc ns) \<and>
     set (foldl addName acc ns) = set acc \<union> (cleanedName ` set ns - {[]})"
proof (induction ns arbitrary: acc)
  case Nil
  then show ?case by simp
next
  case (Cons n ns)
  from addName_set [OF Cons.prems, of n]
  have d: "distinct (addName acc n)"
    and s: "set (addName acc n) = set acc \<union> ({cleanedName n} - {[]})" by simp_all
  from Cons.IH [OF d] show ?case using s by auto
qed

lemma countJpTotal_card:
  "countJpTotal run ruck mpc =
     card (cleanedName ` (name ` {p \<in> set run. \<not> starsky p} \<union>
                          name ` {p \<in> set ruck. \<not> starsky p} \<union>
                          name ` {p \<in> set mpc. \<not> starsky p}) - {[]})"
proof -
  define n1 where "n1 = foldl addName [] (map name (filter (\<lambda>p. \<not> starsky p) run))"
  define n2 where "n2 = foldl addName n1 (map name (filter (\<lambda>p. \<not> starsky p) ruck))"
  define n3 where "n3 = foldl addName n2 (map name (filter (\<lambda>p. \<not> starsky p) mpc))"
  have f1: "distinct n1" "set n1 = cleanedName ` name ` {p \<in> set run. \<not> starsky p} - {[]}"
    using foldl_addName [of "[]" "map name (filter (\<lambda>p. \<not> starsky p) run)"]
    by (simp_all add: n1_def)
  have f2: "distinct n2"
    "set n2 = set n1 \<union> (cleanedName ` name ` {p \<in> set ruck. \<not> starsky p} - {[]})"
    using foldl_addName [OF f1(1), of "map name (filter (\<lambda>p. \<not> starsky p) ruck)"]
    by (simp_all add: n2_def)
  have f3: "distinct n3"
    "set n3 = set n2 \<union> (cleanedName ` name ` {p \<in> set mpc. \<not> starsky p} - {[]})"
    using foldl_addName [OF f2(1), of "map name (filter (\<lambda>p. \<not> starsky p) mpc)"]
    by (simp_all add: n3_def)
  have "countJpTotal run ruck mpc = length n3"
    by (simp add: countJpTotal_def n1_def n2_def n3_def Let_def)
  also have "\<dots> = card (set n3)" using f3(1) by (simp add: distinct_card)
  also have "set n3 = cleanedName ` (name ` {p \<in> set run. \<not> starsky p} \<union>
                          name ` {p \<in> set ruck. \<not> starsky p} \<union>
                          name ` {p \<in> set mpc. \<not> starsky p}) - {[]}"
    unfolding f3(2) f2(2) f1(2) by (simp add: image_Un Un_Diff)
  finally show ?thesis .
qed

text \<open>
  Claim C10. The reported PAX total leaves out the attendees with the starsky flag. In the
  standard layout the service's \<open>generateBackblast\<close> and the view's no-AI formatter
  report the number of roster entries without the flag, and the view's
  \<open>countStandardTotal\<close> is that number for the roster of named entries
  (\<open>validStandardPax\<close>) that the view hands to both. In the Jurassic Park layout
  \<open>countJpTotal\<close> is the number of distinct cleaned (stripped, trimmed, lower-cased,
  non-empty) names over the run, ruck and MPC rows without the flag, so a name that is
  in two groups counts once. Lower-casing is that of \<open>String.prototype.toLowerCase\<close>
  on all of Unicode: a name written once with a capital and once with a small E acute
  counts once.
\<close>

theorem pax_totals:
  "serviceTotalPax pax = card {i. i < length pax \<and> \<not> starsky (pax ! i)} \<and>
   standardTotalPax pax = card {i. i < length pax \<and> \<not> starsky (pax ! i)} \<and>
   countStandardTotal pax = standardTotalPax (validStandardPax pax) \<and>
   countJpTotal run ruck mpc =
     card (cleanedName ` (name ` {p \<in> set run. \<not> starsky p} \<union>
                          name ` {p \<in> set ruck. \<not> starsky p} \<union>
                          name ` {p \<in> set mpc. \<not> starsky p}) - {[]})"
  using countStandardTotal_valid [of pax] countJpTotal_card [of run ruck mpc]
  by (simp add: serviceTotalPax_def standardTotalPax_def length_filter_conv_card)

lemma cleaned_examples:
  "cleanedName (js ''Hardwood'') = js ''hardwood''"
  "cleanedName (js ''@hardwood '') = js ''hardwood''"
  "cleanedName (js ''Dredd'') = js ''dredd''"
  by (simp_all add: cleanedName_def toLowerCaseU_def lowerCodePoint_ascii stripAt_def trim_def isSpace_def js_def
        split del: if_split)

lemma cleaned_emile:
  "toLowerCaseU (trim (stripAt nameEmileCapital)) = nameEmileSmall"
  "toLowerCaseU (trim (stripAt nameEmileSmall)) = nameEmileSmall"
proof -
  have "trim (stripAt nameEmileCapital) = nameEmileCapital"
    "trim (stripAt nameEmileSmall) = nameEmileSmall"
    by (simp_all add: nameEmileCapital_def nameEmileSmall_def stripAt_def trim_def isSpace_def
          js_def split del: if_split)
  then show "toLowerCaseU (trim (stripAt nameEmileCapital)) = nameEmileSmall"
    "toLowerCaseU (trim (stripAt nameEmileSmall)) = nameEmileSmall"
    using lower_examples by simp_all
qed

theorem pax_totals_witness:
  "serviceTotalPax roster3 = 2 \<and>
   card {i. i < length roster3 \<and> \<not> starsky (roster3 ! i)} = 2 \<and>
   countStandardTotal roster3 = 2 \<and>
   standardTotalPax (validStandardPax roster3) = 2 \<and>
   countJpTotal [jpRow ''Hardwood'', jpRow ''Dredd''] [jpRow ''@hardwood ''] [jpStarskyRow ''Moses'']
     = 2 \<and>
   cleanedName nameEmileCapital = nameEmileSmall \<and>
   countJpTotal [jpRowU nameEmileCapital] [jpRowU nameEmileSmall] [] = 1 \<and>
   card (cleanedName ` (name ` {p \<in> set [jpRowU nameEmileCapital]. \<not> starsky p} \<union>
                        name ` {p \<in> set [jpRowU nameEmileSmall]. \<not> starsky p} \<union>
                        name ` {p \<in> set ([] :: jpPaxMpc list). \<not> starsky p}) - {[]}) = 1"
proof -
  note u = pax_totals [where pax = roster3 and run = "[jpRowU nameEmileCapital]"
      and ruck = "[jpRowU nameEmileSmall]" and mpc = "[] :: jpPaxMpc list"]
  have ne0: "nameEmileSmall \<noteq> []" by (simp add: nameEmileSmall_def)
  have d: "countJpTotal [jpRowU nameEmileCapital] [jpRowU nameEmileSmall] ([] :: jpPaxMpc list) = 1"
    using ne0 by (simp add: countJpTotal_def addName_def jpRowU_def cleaned_emile Let_def
          split del: if_split)
  have e: "cleanedName nameEmileCapital = nameEmileSmall"
    using cleaned_emile(1) by (simp add: cleanedName_def)
  have f: "card (cleanedName ` (name ` {p \<in> set [jpRowU nameEmileCapital]. \<not> starsky p} \<union>
                        name ` {p \<in> set [jpRowU nameEmileSmall]. \<not> starsky p} \<union>
                        name ` {p \<in> set ([] :: jpPaxMpc list). \<not> starsky p}) - {[]}) = 1"
    using u d by simp
  note t = pax_totals [where pax = roster3 and run = "[jpRow ''Hardwood'', jpRow ''Dredd'']"
      and ruck = "[jpRow ''@hardwood '']" and mpc = "[jpStarskyRow ''Moses'']"]
  have a: "serviceTotalPax roster3 = 2"
    by (simp add: serviceTotalPax_def roster3_def paxHardwood_def paxDredd_def paxMoses_def)
  have b: "countStandardTotal roster3 = 2"
    by (simp add: countStandardTotal_def roster3_def paxHardwood_def paxDredd_def paxMoses_def
          stripAt_def trim_def isSpace_def js_def split del: if_split)
  have ne: "js ''hardwood'' \<noteq> js ''dredd''" "js ''dredd'' \<noteq> []" "js ''hardwood'' \<noteq> []"
    by (simp_all add: js_def)
  have cl: "toLowerCaseU (trim (stripAt (js ''Hardwood''))) = js ''hardwood''"
    "toLowerCaseU (trim (stripAt (js ''@hardwood ''))) = js ''hardwood''"
    "toLowerCaseU (trim (stripAt (js ''Dredd''))) = js ''dredd''"
    using cleaned_examples by (simp_all add: cleanedName_def)
  have c: "countJpTotal [jpRow ''Hardwood'', jpRow ''Dredd''] [jpRow ''@hardwood '']
             [jpStarskyRow ''Moses''] = 2"
    using ne by (simp add: countJpTotal_def addName_def jpRow_def jpStarskyRow_def cl Let_def
          split del: if_split)
  show ?thesis using t a b c d e f by simp
qed

section \<open>Normalisation of the service's answer\<close>

lemmas evalRe = replaceAll_def firstMatch_def charStep_def lits_def litsU_def js_def plus1_def
  ws_def sp_def canon_def isLineTerminator_def isSpace_def isWordChar_def Let_def const_def
  cap_def notNl_def hws_def soPlain_def soUnicode_def symbolOther_ascii twoNl_def tdThen_def
  tdCommentBelow_def bringColon_def optBackpack_def

lemmas preblastRules = reCrLf_def rePinWhere_def reLineWhere_def reBackpackBring_def
  reDdComment_def reTdComment_def reTdNlBackpack_def reTdNlBring_def reTdNls_def reTdBring_def
  reTdNonSpace_def reTdBringGroup_def reTdNlsBringGroup_def reTdGuard1_def reTdGuard2_def
  qLineBiceps_def qLineBicepsTight_def qLinePlain_def pinLabel_def lineLabel_def
  reDateStray_def reBeforeDate_def reAfterDate_def reDateDd_def reLineBring_def reWeather_def
  reAddressLine_def reAddrAlone_def reAoWhere_def reQLabel_def reDateLabel_def reBringLabel_def

lemma ddTdStep_none:
  assumes "snd (ddTdScan (splitLines out) [] (-1)) = -1"
  shows "ddTdStep seed out = out"
  using assms by (auto simp add: ddTdStep_def Let_def split: prod.splits)

lemmas evalDdTd = ddTdStep_none isDdTdLine_def reTest_def reDdTdLine_def trim_def

lemma normalizeAiPreblast_drift:
  "normalizeAiPreblast (js ''Hi\<newline>Date: Sat\<newline>Bye'') [] [] seed False
     = js ''Hi\<newline>Date/Time: Sat\<newline>Bye''"
  "normalizeAiPreblast (js ''Hi\<newline>Date/Time: Sat\<newline>Bye'') [] [] seed False
     = js ''Hi\<newline>Date/Time: Sat\<newline>\<newline>Bye''"
  unfolding normalizeAiPreblast_def
  by (simp_all add: evalRe preblastRules evalDdTd split del: if_split)

lemma stripEmojis_drift:
  "stripEmojis (js ''Hi\<newline>Date: Sat\<newline>Bye'') = js ''Hi\<newline>Date: Sat\<newline>Bye''"
  "stripEmojis (js ''Hi\<newline>Date/Time: Sat\<newline>Bye'') = js ''Hi\<newline>Date/Time: Sat\<newline>Bye''"
  "stripEmojis (js ''Hi\<newline>Date/Time: Sat\<newline>\<newline>Bye'')
     = js ''Hi\<newline>Date/Time: Sat\<newline>\<newline>Bye''"
  by (simp_all add: stripEmojis_def reEmoji_def evalRe split del: if_split)

lemma stripMarkdownImageLines_drift:
  "stripMarkdownImageLines (js ''Hi\<newline>Date/Time: Sat\<newline>Bye'')
     = js ''Hi\<newline>Date/Time: Sat\<newline>Bye''"
  "stripMarkdownImageLines (js ''Hi\<newline>Date/Time: Sat\<newline>\<newline>Bye'')
     = js ''Hi\<newline>Date/Time: Sat\<newline>\<newline>Bye''"
  by (simp_all add: stripMarkdownImageLines_def reImageLine_def reThreeNl_def trim_def evalRe
        split del: if_split)

lemma normalizePreblastOutput_drift:
  "normalizePreblastOutput False False False [] seed (js ''Hi\<newline>Date: Sat\<newline>Bye'')
     = js ''Hi\<newline>Date/Time: Sat\<newline>Bye''"
  "normalizePreblastOutput False False False [] seed (js ''Hi\<newline>Date/Time: Sat\<newline>Bye'')
     = js ''Hi\<newline>Date/Time: Sat\<newline>\<newline>Bye''"
  by (simp_all add: normalizePreblastOutput_def normalizeAiPreblast_drift stripEmojis_drift
        stripMarkdownImageLines_drift)

text \<open>
  Claim C7, evaluated where it fails. On the answer \<open>Hi / Date: Sat / Bye\<close> (three lines)
  the preblast normalisation, with a fixed seed and emoji setting, returns
  \<open>Hi / Date/Time: Sat / Bye\<close>: the only rule that applies renames the label. Applied to
  its own result it returns \<open>Hi / Date/Time: Sat / (blank) / Bye\<close>: now the rule that
  puts a blank line behind the \<open>Date/Time\<close> line applies. The two results differ, so the
  normalisation is not idempotent.
\<close>

theorem normalization_not_idempotent:
  "normalizePreblastOutput False False False [] seedA textDateDrift
     = js ''Hi\<newline>Date/Time: Sat\<newline>Bye'' \<and>
   normalizePreblastOutput False False False [] seedA
       (normalizePreblastOutput False False False [] seedA textDateDrift)
     = js ''Hi\<newline>Date/Time: Sat\<newline>\<newline>Bye'' \<and>
   normalizePreblastOutput False False False [] seedA
       (normalizePreblastOutput False False False [] seedA textDateDrift)
     \<noteq> normalizePreblastOutput False False False [] seedA textDateDrift"
proof -
  have once: "normalizePreblastOutput False False False [] seedA textDateDrift
                = js ''Hi\<newline>Date/Time: Sat\<newline>Bye''"
    unfolding textDateDrift_def by (rule normalizePreblastOutput_drift(1))
  have twice: "normalizePreblastOutput False False False [] seedA
                 (js ''Hi\<newline>Date/Time: Sat\<newline>Bye'')
                = js ''Hi\<newline>Date/Time: Sat\<newline>\<newline>Bye''"
    by (rule normalizePreblastOutput_drift(2))
  have differ: "js ''Hi\<newline>Date/Time: Sat\<newline>\<newline>Bye''
                  \<noteq> js ''Hi\<newline>Date/Time: Sat\<newline>Bye''"
    by (simp add: js_def)
  show ?thesis
    unfolding once twice using differ by simp
qed

section \<open>The handlers of the backblast view\<close>

text \<open>Past its three guards, \<open>handleGenerateAI\<close> of the backblast view rejects whatever the
  service does: the \<open>try\<close> block reads \<open>styleSeed\<close> after a successful generation, and
  the \<open>catch\<close> block reads it while it builds the formatter's argument.\<close>

lemma bbHandleGenerateAI_rejects:
  assumes "\<not> forceNoAiAo activeAo" "bbQName form \<noteq> []" "bbLongDate form \<noteq> []"
  shows "bbHandleGenerateAI E apiKey activeAo form isFriday dir draw draw' s out =
           (Inl (ReferenceError ''styleSeed''),
            out\<lparr>isLoading := False, generatedText := generatingPlaceholder\<rparr>,
            snd (generateWithRetry E apiKey (aoIdent activeAo \<noteq> []) s))"
proof -
  obtain r s1 where g: "generateWithRetry E apiKey (aoIdent activeAo \<noteq> []) s = (r, s1)"
    by (cases "generateWithRetry E apiKey (aoIdent activeAo \<noteq> []) s")
  show ?thesis
    using assms g
    by (cases r) (simp_all add: bbHandleGenerateAI_def readStyleSeed_def Let_def)
qed

lemma aoCompass_facts:
  "\<not> forceNoAiAo aoCompass" "aoIdent aoCompass \<noteq> []" "bbQName formA \<noteq> []" "bbLongDate formA \<noteq> []"
  by (simp_all add: forceNoAiAo_def aoCompass_def formA_def js_def)

lemma run_hello: "generateWithRetry envHello True True clock0 = (Inr (js ''Hello''), clock1)"
proof -
  have ec: "externalCall envHello clock0 = (Inr (Some (js ''Hello'')), clock1)"
    by (simp add: externalCall_def envHello_def clock0_def clock1_def)
  have tr: "trim (js ''Hello'') = js ''Hello''"
    by (simp add: trim_def isSpace_def js_def split del: if_split)
  have "retryGeminiCall envHello clock0 = (Inr (Some (js ''Hello'')), clock1)"
    using ec by (simp add: retryGeminiCall_def retryLoop.simps [of _ _ _ _ 0])
  then have "generateBackblast envHello True True clock0 = (Inr (js ''Hello''), clock1)"
    using tr by (simp add: generateBackblast_def getGenAiClient_clock0 js_def)
  then show ?thesis
    by (simp add: generateWithRetry_def viewLoop.simps [of _ _ _ _ _ _ "Suc 0"])
qed

lemma run_invalid:
  "generateWithRetry envInvalid True True clock0 = (Inl (newError ''invalid argument''), clock1)"
  using generateBackblast_concrete(1) invalid_permanent(2)
  by (simp add: generateWithRetry_def viewLoop.simps [of _ _ _ _ _ _ "Suc 0"])

lemma emptyText_permanent:
  "\<not> isRetryable (newError ''Gemini returned empty text for backblast.'')"
  "\<not> transient (newError ''Gemini returned empty text for backblast.'')"
  by code_simp+

lemma run_blank:
  "generateWithRetry envBlank True True clock0 =
     (Inl (newError ''Gemini returned empty text for backblast.''), clock1)"
proof -
  have ec: "externalCall envBlank clock0 = (Inr (Some (js ''  '')), clock1)"
    by (simp add: externalCall_def envBlank_def clock0_def clock1_def)
  have tr: "trim (js ''  '') = []"
    by (simp add: trim_def isSpace_def js_def split del: if_split)
  have "retryGeminiCall envBlank clock0 = (Inr (Some (js ''  '')), clock1)"
    using ec by (simp add: retryGeminiCall_def retryLoop.simps [of _ _ _ _ 0])
  then have "generateBackblast envBlank True True clock0 =
               (Inl (newError ''Gemini returned empty text for backblast.''), clock1)"
    using tr by (simp add: generateBackblast_def getGenAiClient_clock0)
  then show ?thesis
    using emptyText_permanent(2)
    by (simp add: generateWithRetry_def viewLoop.simps [of _ _ _ _ _ _ "Suc 0"])
qed

lemma outRejected_eq:
  "out0\<lparr>isLoading := False, generatedText := generatingPlaceholder\<rparr> = outRejected"
  by (simp add: out0_def outRejected_def)

text \<open>\<open>handleGenerateAI\<close> of the preblast view never rejects: its seed is declared
  before the \<open>try\<close> block.\<close>

lemma pbHandleGenerateAI_resolves:
  "fst (pbHandleGenerateAI E apiKey activeAo pform isFriday draw s out) = Inr ()"
  by (simp add: pbHandleGenerateAI_def Let_def split: prod.splits)

text \<open>
  Claim C1, evaluated where it fails. The orchestration is claimed never to throw and
  always to end with a post text. In the backblast view, with a filled form at the AO
  \<open>compass\<close> and a service that answers \<open>Hello\<close> at the first call, the promise that
  \<open>handleGenerateAI\<close> returns is rejected with the \<open>ReferenceError\<close> for \<open>styleSeed\<close>
  after one external call; the view is left with the placeholder text, no output label
  and the loading flag cleared. The handler of the preblast view resolves in every
  environment.
\<close>

theorem backblast_handler_rejects:
  "bbHandleGenerateAI envHello True aoCompass formA False Map.empty drawA drawC clock0 out0 =
     (Inl (ReferenceError ''styleSeed''), outRejected, clock1) \<and>
   fst (pbHandleGenerateAI E apiKey activeAo pform isFriday draw s out) = Inr ()"
  using bbHandleGenerateAI_rejects [OF aoCompass_facts(1) aoCompass_facts(3) aoCompass_facts(4),
          where E = envHello and apiKey = True and s = clock0 and out = out0]
        aoCompass_facts(2) run_hello outRejected_eq pbHandleGenerateAI_resolves
  by simp

text \<open>
  Claim C4, evaluated where it fails. When the first external call fails with a permanent
  error, one call is claimed to be made and the result to be the fallback text. Against a
  service that rejects with \<open>new Error("invalid argument")\<close>, and against one that
  answers with white space only, the backblast handler makes exactly one external call,
  as claimed, but the fallback text is never produced: the \<open>catch\<close> block throws the
  \<open>ReferenceError\<close> for \<open>styleSeed\<close> and the view keeps the placeholder text.
\<close>

theorem permanent_error_one_call_no_fallback:
  "bbHandleGenerateAI envInvalid True aoCompass formA False Map.empty drawA drawC clock0 out0 =
     (Inl (ReferenceError ''styleSeed''), outRejected, clock1) \<and>
   bbHandleGenerateAI envBlank True aoCompass formA False Map.empty drawA drawC clock0 out0 =
     (Inl (ReferenceError ''styleSeed''), outRejected, clock1) \<and>
   calls clock1 = 1 \<and> generatedText outRejected = generatingPlaceholder"
  using bbHandleGenerateAI_rejects [OF aoCompass_facts(1) aoCompass_facts(3) aoCompass_facts(4),
          where E = envInvalid and apiKey = True and s = clock0 and out = out0]
        bbHandleGenerateAI_rejects [OF aoCompass_facts(1) aoCompass_facts(3) aoCompass_facts(4),
          where E = envBlank and apiKey = True and s = clock0 and out = out0]
        aoCompass_facts(2) run_invalid run_blank outRejected_eq
  by (simp add: clock1_def outRejected_def)

text \<open>
  Claim C6, evaluated where it fails. One style seed is claimed to be generated per run
  and to be handed to the formatter when the fallback is taken. Against a service that
  always answers 429, the backblast handler gives up after eight calls with the budget of
  60000 ms used up, and its \<open>catch\<close> block then reads a \<open>styleSeed\<close> that no scope
  declares: no seed is generated, the formatter is not called, and the view keeps the
  placeholder text instead of the formatter's output.
\<close>

theorem backblast_fallback_has_no_seed:
  "bbHandleGenerateAI env429 True aoCompass formA False Map.empty drawA drawC clock0 out0 =
     (Inl (ReferenceError ''styleSeed''), outRejected, clock429)"
  using bbHandleGenerateAI_rejects [OF aoCompass_facts(1) aoCompass_facts(3) aoCompass_facts(4),
          where E = env429 and apiKey = True and s = clock0 and out = out0]
        aoCompass_facts(2) run429 outRejected_eq
  by (simp add: clock429_def)

section \<open>The No-AI formatters\<close>

lemma valid_roster3: "validStandardPax roster3 = roster3"
  by (simp add: validStandardPax_def roster3_def paxHardwood_def paxDredd_def paxMoses_def
        stripAt_def trim_def isSpace_def js_def split del: if_split)

lemma roster3_total: "length (filter (\<lambda>p. \<not> starsky p) roster3) = 2"
  by (simp add: roster3_def paxHardwood_def paxDredd_def paxMoses_def)

lemma formatBackblastNoAI_Standard_formA:
  "formatBackblastNoAI_Standard aoCompass formA False Map.empty nowMs randomDigits
     (bbStandardArgs formA seedA False) = textNoAiA"
  by (simp add: formatBackblastNoAI_Standard_def bbStandardArgs_def formA_def aoCompass_def
        valid_roster3 formatPaxSectionStandard_def roster3_lines roster3_total buildEmojiMap_def
        formatThang_def clickLine_def aoLabel_def bbBuildHashtags_def toLowerCaseU_def lowerCodePoint_ascii
        showNat.simps compactOptionalString_def js_def trim_def isSpace_def stripAt_def
        orElse_def textNoAiA_def Let_def split del: if_split)

lemma seed_drawA: "buildStyleSeed (fst drawA) (snd drawA) = seedA"
  "buildStyleSeed (fst drawB) (snd drawB) = seedA"
  by (simp_all add: buildStyleSeed_def drawA_def drawB_def seedA_def showNat.simps js_def)

text \<open>
  Claim C9. The No-AI formatters are deterministic. \<open>formatBackblastNoAI_Standard\<close>
  reads the clock and the random number generator (it calls \<open>buildStyleSeed()\<close>), yet its
  result does not depend on what it reads there: two calls with the same arguments in
  the same component state return the same text. Hence \<open>handleFormatNoAI\<close> of the
  backblast view depends on the clock and the random numbers only through the seed it
  builds itself, and for one and the same seed the No-AI handlers of both views leave
  the same text. \<open>formatStandardNoAI\<close> of the preblast view reads nothing but its
  arguments.
\<close>

theorem noai_formatter_deterministic:
  "formatBackblastNoAI_Standard activeAo form isFriday dir nowMs randomDigits args =
     formatBackblastNoAI_Standard activeAo form isFriday dir nowMs' randomDigits' args \<and>
   bbHandleFormatNoAI activeAo form isFriday dir draw draw1 out =
     bbHandleFormatNoAI activeAo form isFriday dir draw draw2 out \<and>
   (buildStyleSeed (fst d1) (snd d1) = buildStyleSeed (fst d2) (snd d2) \<longrightarrow>
      bbHandleFormatNoAI activeAo form isFriday dir d1 draw1 out =
        bbHandleFormatNoAI activeAo form isFriday dir d2 draw2 out \<and>
      pbHandleFormatNoAI activeAo pform isFriday d1 out =
        pbHandleFormatNoAI activeAo pform isFriday d2 out)"
proof -
  have f: "formatBackblastNoAI_Standard activeAo form isFriday dir n r a =
             formatBackblastNoAI_Standard activeAo form isFriday dir n' r' a" for n r n' r' a
    by (simp add: formatBackblastNoAI_Standard_def Let_def)
  have h: "bbHandleFormatNoAI activeAo form isFriday dir d e out =
             bbHandleFormatNoAI activeAo form isFriday dir d e' out" for d e e'
    unfolding bbHandleFormatNoAI_def Let_def
    by (simp only: f [where n = "fst e" and r = "snd e" and n' = "fst e'" and r' = "snd e'"])
  have b: "bbHandleFormatNoAI activeAo form isFriday dir d1 draw1 out =
             bbHandleFormatNoAI activeAo form isFriday dir d2 draw2 out"
    if s: "buildStyleSeed (fst d1) (snd d1) = buildStyleSeed (fst d2) (snd d2)"
  proof -
    have "bbHandleFormatNoAI activeAo form isFriday dir d1 draw1 out =
            bbHandleFormatNoAI activeAo form isFriday dir d2 draw1 out"
      unfolding bbHandleFormatNoAI_def Let_def by (simp only: s)
    then show ?thesis
      using h [of d2 draw1 draw2] by simp
  qed
  have p: "pbHandleFormatNoAI activeAo pform isFriday d1 out =
             pbHandleFormatNoAI activeAo pform isFriday d2 out"
    if s: "buildStyleSeed (fst d1) (snd d1) = buildStyleSeed (fst d2) (snd d2)"
    unfolding pbHandleFormatNoAI_def Let_def by (simp only: s)
  show ?thesis
    using f [of nowMs randomDigits args nowMs' randomDigits'] h [of draw draw1 draw2] b p
    by blast
qed

theorem noai_formatter_deterministic_witness:
  "drawA \<noteq> drawB \<and>
   buildStyleSeed (fst drawA) (snd drawA) = buildStyleSeed (fst drawB) (snd drawB) \<and>
   bbHandleFormatNoAI aoCompass formA False Map.empty drawA drawC out0 =
     bbHandleFormatNoAI aoCompass formA False Map.empty drawB drawA out0 \<and>
   pbHandleFormatNoAI aoCompass formP False drawA out0 =
     pbHandleFormatNoAI aoCompass formP False drawB out0 \<and>
   formatBackblastNoAI_Standard aoCompass formA False Map.empty (fst drawA) (snd drawA)
     (bbStandardArgs formA seedA False) = textNoAiA \<and>
   formatBackblastNoAI_Standard aoCompass formA False Map.empty (fst drawC) (snd drawC)
     (bbStandardArgs formA seedA False) = textNoAiA"
proof -
  have ne: "drawA \<noteq> drawB"
    by (simp add: drawA_def drawB_def js_def)
  have s: "buildStyleSeed (fst drawA) (snd drawA) = buildStyleSeed (fst drawB) (snd drawB)"
    using seed_drawA by simp
  note t = noai_formatter_deterministic [where ?d1.0 = drawA and ?d2.0 = drawB
        and activeAo = aoCompass and form = formA and pform = formP and isFriday = False
        and dir = Map.empty and ?draw1.0 = drawC and ?draw2.0 = drawA and out = out0
        and draw = drawA and nowMs = "fst drawA" and randomDigits = "snd drawA"
        and nowMs' = "fst drawC" and randomDigits' = "snd drawC"
        and args = "bbStandardArgs formA seedA False"]
  have c: "bbHandleFormatNoAI aoCompass formA False Map.empty drawA drawC out0 =
             bbHandleFormatNoAI aoCompass formA False Map.empty drawB drawA out0 \<and>
           pbHandleFormatNoAI aoCompass formP False drawA out0 =
             pbHandleFormatNoAI aoCompass formP False drawB out0"
    using t s by blast
  have e: "formatBackblastNoAI_Standard aoCompass formA False Map.empty (fst drawA) (snd drawA)
             (bbStandardArgs formA seedA False) =
           formatBackblastNoAI_Standard aoCompass formA False Map.empty (fst drawC) (snd drawC)
             (bbStandardArgs formA seedA False)"
    using t by blast
  show ?thesis
    using ne s c e formatBackblastNoAI_Standard_formA [of "fst drawA" "snd drawA"]
    by simp
qed

end
